theory Spec2Isabelle
  imports Main "HOL-Library.Word" "HOL-Library.Monad_Syntax" "HOL-Library.Sublist"
begin

unbundle bit_operations_syntax

section \<open>Bytes, C strings and the allocator\<close>

text \<open>
  The library is C. Its integer types are modelled for the LP64 data model: \<open>uint8_t\<close> is
  \<open>8 word\<close>, \<open>int\<close> is \<open>32 word\<close> read as two's complement, \<open>size_t\<close> is \<open>64 word\<close>
  wherever the code computes with a value that can wrap. Counts, capacities and lengths of
  objects that exist in memory are \<open>nat\<close>: they cannot reach \<open>2 ^ 64\<close>.

  A result of type \<open>'a option\<close> is \<open>None\<close> where the C program has left defined behaviour:
  a read through a null or freed pointer, a read or write outside a buffer, a second
  \<open>free\<close> of the same buffer, or \<open>abort()\<close>.
\<close>

type_synonym byte = "8 word"
type_synonym addr = nat

definition bytes_of :: "string \<Rightarrow> byte list" where
  "bytes_of s = map of_char s"

text \<open>
  A \<open>const char *\<close> argument is passed as the bytes stored from the pointer on, the
  terminating NUL implied after the last one. The C string is what precedes the first NUL.
\<close>

definition c_str :: "byte list \<Rightarrow> byte list" where
  "c_str s = takeWhile (\<lambda>b. b \<noteq> 0) s"

definition strlen :: "byte list \<Rightarrow> nat" where
  "strlen s = length (c_str s)"

text \<open>\<open>strncmp\<close>: compares at most \<open>n\<close> characters and stops after a NUL.\<close>

fun strncmp :: "byte list \<Rightarrow> byte list \<Rightarrow> nat \<Rightarrow> int" where
  "strncmp a b 0 = 0"
| "strncmp a b (Suc n) =
     (let x = (case a of [] \<Rightarrow> 0 | c # _ \<Rightarrow> c);
          y = (case b of [] \<Rightarrow> 0 | c # _ \<Rightarrow> c)
      in if x \<noteq> y then int (unat x) - int (unat y)
         else if x = 0 then 0
         else strncmp (tl a) (tl b) n)"

text \<open>
  The heap holds the buffers obtained from \<open>malloc\<close>. Addresses are handed out in
  increasing order and never reused, so a freed buffer stays recognisably dead.
  \<open>outcomes\<close> lists the outcomes of the coming \<open>malloc\<close> and \<open>realloc\<close> calls
  (\<open>False\<close>: the call returns \<open>NULL\<close>); once the list is used up every call succeeds.
\<close>

record heap =
  cells :: "addr \<Rightarrow> byte list option"
  brk :: addr
  outcomes :: "bool list"

definition heap_init :: "bool list \<Rightarrow> heap" where
  "heap_init bs = \<lparr> cells = (\<lambda>_. None), brk = 0, outcomes = bs \<rparr>"

text \<open>Whether the next allocation succeeds, and the heap with that outcome consumed.\<close>

definition alloc_ok :: "heap \<Rightarrow> bool" where
  "alloc_ok h = (case outcomes h of [] \<Rightarrow> True | b # _ \<Rightarrow> b)"

definition alloc_next :: "heap \<Rightarrow> heap" where
  "alloc_next h = h\<lparr> outcomes := tl (outcomes h) \<rparr>"

definition malloc :: "nat \<Rightarrow> heap \<Rightarrow> addr option \<times> heap" where
  "malloc n h =
     (if alloc_ok h
      then (Some (brk h),
            (alloc_next h)\<lparr> cells := (cells h)(brk h \<mapsto> replicate n 0), brk := Suc (brk h) \<rparr>)
      else (None, alloc_next h))"

definition free_buf :: "addr \<Rightarrow> heap \<Rightarrow> heap option" where
  "free_buf a h =
     (case cells h a of
        None \<Rightarrow> None
      | Some _ \<Rightarrow> Some (h\<lparr> cells := (cells h)(a := None) \<rparr>))"

text \<open>\<open>if (p) free(p);\<close>\<close>

definition free_ptr :: "addr option \<Rightarrow> heap \<Rightarrow> heap option" where
  "free_ptr p h = (case p of None \<Rightarrow> Some h | Some a \<Rightarrow> free_buf a h)"

text \<open>Writing \<open>bs\<close> into the buffer at \<open>a\<close>, from offset \<open>off\<close>.\<close>

definition poke :: "addr \<Rightarrow> nat \<Rightarrow> byte list \<Rightarrow> heap \<Rightarrow> heap option" where
  "poke a off bs h =
     (case cells h a of
        None \<Rightarrow> None
      | Some old \<Rightarrow>
          if off + length bs \<le> length old
          then Some (h\<lparr> cells := (cells h)(a \<mapsto> take off old @ bs @ drop (off + length bs) old) \<rparr>)
          else None)"

text \<open>
  \<open>realloc\<close>: on success the contents move to a fresh buffer of the new size and the old
  buffer is gone; on failure nothing changes. A null pointer makes it \<open>malloc\<close>.
\<close>

definition realloc :: "addr option \<Rightarrow> nat \<Rightarrow> heap \<Rightarrow> (addr option \<times> heap) option" where
  "realloc p n h =
     (case p of
        None \<Rightarrow> Some (malloc n h)
      | Some a \<Rightarrow>
          (case cells h a of
             None \<Rightarrow> None
           | Some old \<Rightarrow>
               if alloc_ok h
               then Some (Some (brk h),
                      (alloc_next h)\<lparr> cells := (cells h)(a := None,
                          brk h \<mapsto> take n old @ replicate (n - length old) 0),
                        brk := Suc (brk h) \<rparr>)
               else Some (None, alloc_next h)))"

text \<open>Reading one byte, and reading \<open>n\<close> bytes from offset \<open>off\<close>.\<close>

definition peek :: "heap \<Rightarrow> addr option \<Rightarrow> nat \<Rightarrow> byte option" where
  "peek h p i =
     (case p of
        None \<Rightarrow> None
      | Some a \<Rightarrow>
          (case cells h a of
             None \<Rightarrow> None
           | Some bs \<Rightarrow> if i < length bs then Some (bs ! i) else None))"

definition memread :: "heap \<Rightarrow> addr option \<Rightarrow> nat \<Rightarrow> nat \<Rightarrow> byte list option" where
  "memread h p off n =
     (case p of
        None \<Rightarrow> None
      | Some a \<Rightarrow>
          (case cells h a of
             None \<Rightarrow> None
           | Some bs \<Rightarrow> if off + n \<le> length bs then Some (take n (drop off bs)) else None))"

text \<open>
  The characters \<open>strnlen\<close>, \<open>strncat\<close> and \<open>strndup\<close> see from offset \<open>off\<close>: at most
  \<open>n\<close> of them, and none from the first NUL on. The scan leaves the buffer when it meets
  neither a NUL nor the bound inside it.
\<close>

definition strn_at :: "heap \<Rightarrow> addr option \<Rightarrow> nat \<Rightarrow> nat \<Rightarrow> byte list option" where
  "strn_at h p off n =
     (case p of
        None \<Rightarrow> None
      | Some a \<Rightarrow>
          (case cells h a of
             None \<Rightarrow> None
           | Some bs \<Rightarrow>
               let s = take n (drop off bs)
               in if length (c_str s) < length s \<or> length s = n then Some (c_str s) else None))"

text \<open>The C string stored in the buffer at \<open>p\<close>.\<close>

definition cstr_at :: "heap \<Rightarrow> addr option \<Rightarrow> byte list option" where
  "cstr_at h p =
     (case p of
        None \<Rightarrow> None
      | Some a \<Rightarrow>
          (case cells h a of
             None \<Rightarrow> None
           | Some bs \<Rightarrow> if 0 \<in> set bs then Some (c_str bs) else None))"

section \<open>Records (ndef.h)\<close>

datatype ndef_tnf =
    NDEF_TNF_EMPTY
  | NDEF_TNF_WELL_KNOWN
  | NDEF_TNF_MIME
  | NDEF_TNF_URI
  | NDEF_TNF_EXTERNAL
  | NDEF_TNF_UNKNOWN
  | NDEF_TNF_UNCHANGED
  | NDEF_TNF_RESERVED

text \<open>
  The enumerators are 0 to 6; the three TNF bits of a flags byte can also hold 7, which
  \<open>ndef_tnf_names\<close> calls Reserved.
\<close>

fun tnf_val :: "ndef_tnf \<Rightarrow> byte" where
  "tnf_val NDEF_TNF_EMPTY = 0"
| "tnf_val NDEF_TNF_WELL_KNOWN = 1"
| "tnf_val NDEF_TNF_MIME = 2"
| "tnf_val NDEF_TNF_URI = 3"
| "tnf_val NDEF_TNF_EXTERNAL = 4"
| "tnf_val NDEF_TNF_UNKNOWN = 5"
| "tnf_val NDEF_TNF_UNCHANGED = 6"
| "tnf_val NDEF_TNF_RESERVED = 7"

definition tnf_of :: "byte \<Rightarrow> ndef_tnf" where
  "tnf_of b =
     (if b = 0 then NDEF_TNF_EMPTY
      else if b = 1 then NDEF_TNF_WELL_KNOWN
      else if b = 2 then NDEF_TNF_MIME
      else if b = 3 then NDEF_TNF_URI
      else if b = 4 then NDEF_TNF_EXTERNAL
      else if b = 5 then NDEF_TNF_UNKNOWN
      else if b = 6 then NDEF_TNF_UNCHANGED
      else NDEF_TNF_RESERVED)"

text \<open>
  \<open>ndef_record\<close>. The three pointers are \<open>None\<close> for \<open>NULL\<close>. The lengths are fields of
  their own, as in C: nothing ties them to the sizes of the buffers.
\<close>

record ndef_record =
  raw_index :: nat
  raw_len :: nat
  tnf :: ndef_tnf
  type_len :: byte
  payload_len :: nat
  id_len :: byte
  type_p :: "addr option"
  payload_p :: "addr option"
  id_p :: "addr option"

text \<open>
  \<open>ndef_raw_record\<close> is a union of the abstract record with its own fields, followed by
  the encoding details; \<open>ndef_record.truncate\<close> is its member \<open>abstract\<close>.
\<close>

record ndef_raw_record = ndef_record +
  abs_index :: nat
  flag_begin :: bool
  flag_end :: bool
  flag_chunked :: bool
  flag_short_record :: bool
  flag_include_id_len :: bool

definition ndef_record_init :: ndef_record where
  "ndef_record_init =
     \<lparr> raw_index = 0, raw_len = 0, tnf = NDEF_TNF_EMPTY, type_len = 0, payload_len = 0,
       id_len = 0, type_p = None, payload_p = None, id_p = None \<rparr>"

definition ndef_record_destroy :: "ndef_record \<Rightarrow> heap \<Rightarrow> heap option" where
  "ndef_record_destroy ctx h =
     do {
       h1 \<leftarrow> free_ptr (type_p ctx) h;
       h2 \<leftarrow> free_ptr (payload_p ctx) h1;
       free_ptr (id_p ctx) h2
     }"

section \<open>URI records (ndef_uri.c)\<close>

definition NDEF_URI_ABBREVMAX :: nat where
  "NDEF_URI_ABBREVMAX = 36"

definition ndef_uri_abbrev_table :: "byte list list" where
  "ndef_uri_abbrev_table = map bytes_of
     ['''',
      ''http://www.'',
      ''https://www.'',
      ''http://'',
      ''https://'',
      ''tel:'',
      ''mailto:'',
      ''ftp://anonymous:anonymous@'',
      ''ftp://ftp.'',
      ''ftps://'',
      ''sftp://'',
      ''smb://'',
      ''nfs://'',
      ''ftp://'',
      ''dav://'',
      ''news:'',
      ''telnet://'',
      ''imap:'',
      ''rtsp://'',
      ''urn:'',
      ''pop:'',
      ''sip:'',
      ''sips:'',
      ''tftp:'',
      ''btspp://'',
      ''btl2cap://'',
      ''btgoep://'',
      ''tcpobex://'',
      ''irdaobex://'',
      ''file://'',
      ''urn:epc:id:'',
      ''urn:epc:tag:'',
      ''urn:epc:pat:'',
      ''urn:epc:raw:'',
      ''urn:epc:'',
      ''urn:nfc:'']"

text \<open>\<open>&&\<close> evaluates \<open>ctx.type[0]\<close> only when the TNF and the type length have matched.\<close>

definition ndef_record_is_uri :: "heap \<Rightarrow> ndef_record \<Rightarrow> bool option" where
  "ndef_record_is_uri h ctx =
     (if tnf ctx = NDEF_TNF_WELL_KNOWN \<and> type_len ctx = 1
      then do { t0 \<leftarrow> peek h (type_p ctx) 0; Some (t0 = 0x55 \<and> payload_len ctx \<ge> 2) }
      else Some False)"

text \<open>
  The result is the returned \<open>char *\<close>: \<open>None\<close> for \<open>NULL\<close>, otherwise a fresh buffer
  holding the string and its terminator.
\<close>

definition ndef_record_get_uri :: "ndef_record \<Rightarrow> heap \<Rightarrow> (addr option \<times> heap) option" where
  "ndef_record_get_uri ctx h =
     do {
       is_uri \<leftarrow> ndef_record_is_uri h ctx;
       if is_uri then
         do {
           p0 \<leftarrow> peek h (payload_p ctx) 0;
           if p0 \<noteq> 0 then
             if unat p0 \<ge> NDEF_URI_ABBREVMAX then Some (None, h)
             else
               do {
                 let abbrev = ndef_uri_abbrev_table ! unat p0;
                 s \<leftarrow> strn_at h (payload_p ctx) 1 (payload_len ctx - 1);
                 let cap = strlen abbrev + length s;
                 case malloc (cap + 1) h of
                   (None, h1) \<Rightarrow> Some (None, h1)
                 | (Some mem, h1) \<Rightarrow>
                     do { h2 \<leftarrow> poke mem 0 (abbrev @ s @ [0]) h1; Some (Some mem, h2) }
               }
           else
             do {
               s \<leftarrow> strn_at h (payload_p ctx) 1 (payload_len ctx - 1);
               case malloc (length s + 1) h of
                 (None, h1) \<Rightarrow> Some (None, h1)
               | (Some mem, h1) \<Rightarrow>
                   do { h2 \<leftarrow> poke mem 0 (s @ [0]) h1; Some (Some mem, h2) }
             }
         }
       else Some (None, h)
     }"

definition new_uri :: "byte \<Rightarrow> byte list \<Rightarrow> heap \<Rightarrow> (ndef_record \<times> heap) option" where
  "new_uri abbrev uri h =
     (case malloc (strlen uri + 2) h of
        (None, h1) \<Rightarrow> Some (ndef_record_init, h1)
      | (Some mem, h1) \<Rightarrow>
          do {
            h2 \<leftarrow> poke mem 0 (abbrev # c_str uri @ [0]) h1;
            case malloc 1 h2 of
              (None, h3) \<Rightarrow> do { h4 \<leftarrow> free_buf mem h3; Some (ndef_record_init, h4) }
            | (Some ty, h3) \<Rightarrow>
                do {
                  h4 \<leftarrow> poke ty 0 [0x55] h3;
                  Some (\<lparr> raw_index = 0, raw_len = 0, tnf = NDEF_TNF_WELL_KNOWN, type_len = 1,
                          payload_len = strlen uri + 1, id_len = 0, type_p = Some ty,
                          payload_p = Some mem, id_p = None \<rparr>, h4)
                }
          })"

text \<open>One pass of the search loop of \<open>ndef_record_new_uri\<close>, on \<open>(match, match_len)\<close>.\<close>

definition uri_match_step :: "byte list \<Rightarrow> nat \<Rightarrow> nat \<times> nat \<Rightarrow> nat \<times> nat" where
  "uri_match_step uri i = (\<lambda>(match, match_len).
     let len = strlen (ndef_uri_abbrev_table ! i)
     in if len > match_len \<and> strncmp (ndef_uri_abbrev_table ! i) uri len = 0
        then (i, len) else (match, match_len))"

definition uri_match :: "byte list \<Rightarrow> nat \<times> nat" where
  "uri_match uri = fold (uri_match_step uri) [1..<NDEF_URI_ABBREVMAX] (0, 0)"

definition ndef_record_new_uri :: "byte list \<Rightarrow> heap \<Rightarrow> (ndef_record \<times> heap) option" where
  "ndef_record_new_uri uri h =
     (case uri_match uri of (match, match_len) \<Rightarrow> new_uri (of_nat match) (drop match_len uri) h)"

definition ndef_record_new_raw_uri :: "byte list \<Rightarrow> heap \<Rightarrow> (ndef_record \<times> heap) option" where
  "ndef_record_new_raw_uri uri h = new_uri 0 uri h"

text \<open>The payload of a record as the code reads it: \<open>payload_len\<close> bytes at \<open>payload\<close>.\<close>

definition payload_bytes :: "heap \<Rightarrow> ndef_record \<Rightarrow> byte list option" where
  "payload_bytes h r = memread h (payload_p r) 0 (payload_len r)"

definition type_bytes :: "heap \<Rightarrow> ndef_record \<Rightarrow> byte list option" where
  "type_bytes h r = memread h (type_p r) 0 (unat (type_len r))"

definition id_bytes :: "heap \<Rightarrow> ndef_record \<Rightarrow> byte list option" where
  "id_bytes h r = memread h (id_p r) 0 (unat (id_len r))"

text \<open>
  The invariant of the search loop after the table indices in \<open>S\<close>: the match is a table
  index, \<open>match_len\<close> is the length of its entry, the entry is a prefix of the string unless
  the match is still 0, and no entry of \<open>S\<close> that is a prefix is longer.
\<close>

definition match_inv :: "byte list \<Rightarrow> nat set \<Rightarrow> nat \<times> nat \<Rightarrow> bool" where
  "match_inv uri S = (\<lambda>(m, ml).
     m < NDEF_URI_ABBREVMAX \<and> ml = length (ndef_uri_abbrev_table ! m) \<and>
     (m = 0 \<or> prefix (ndef_uri_abbrev_table ! m) (c_str uri)) \<and>
     (\<forall>i\<in>S. prefix (ndef_uri_abbrev_table ! i) (c_str uri) \<longrightarrow>
        length (ndef_uri_abbrev_table ! i) \<le> ml))"

text \<open>
  Two URI records for the statements below. The first has the payload 00 61 00 62: no
  abbreviation, then a NUL between two characters. The second has the payload 04 78:
  abbreviation 4 (\<open>https://\<close>) and the character \<open>x\<close>.
\<close>

definition uri_nul_heap :: heap where
  "uri_nul_heap =
     \<lparr> cells = (Map.empty)(0 \<mapsto> [0x55], 1 \<mapsto> [0x00, 0x61, 0x00, 0x62]), brk = 2,
       outcomes = [] \<rparr>"

definition uri_nul_record :: ndef_record where
  "uri_nul_record =
     \<lparr> raw_index = 0, raw_len = 0, tnf = NDEF_TNF_WELL_KNOWN, type_len = 1, payload_len = 4,
       id_len = 0, type_p = Some 0, payload_p = Some 1, id_p = None \<rparr>"

definition uri_https_heap :: heap where
  "uri_https_heap =
     \<lparr> cells = (Map.empty)(0 \<mapsto> [0x55], 1 \<mapsto> [0x04, 0x78]), brk = 2, outcomes = [] \<rparr>"

definition uri_https_record :: ndef_record where
  "uri_https_record =
     \<lparr> raw_index = 0, raw_len = 0, tnf = NDEF_TNF_WELL_KNOWN, type_len = 1, payload_len = 2,
       id_len = 0, type_p = Some 0, payload_p = Some 1, id_p = None \<rparr>"

section \<open>Text records (ndef_text.c)\<close>

text \<open>\<open>ndef_text\<close>: two \<open>char *\<close>, each possibly \<open>NULL\<close>.\<close>

record ndef_text =
  lang_p :: "addr option"
  text_p :: "addr option"

definition ndef_record_is_text :: "heap \<Rightarrow> ndef_record \<Rightarrow> bool option" where
  "ndef_record_is_text h ctx =
     (if tnf ctx = NDEF_TNF_WELL_KNOWN \<and> type_len ctx = 1
      then do { t0 \<leftarrow> peek h (type_p ctx) 0; Some (t0 = 0x54 \<and> payload_len ctx \<ge> 4) }
      else Some False)"

text \<open>
  \<open>text_len\<close> is computed in \<open>size_t\<close>: \<open>payload_len - lang_len - 1\<close> wraps when the
  status byte announces a language code longer than the payload.
\<close>

definition ndef_record_get_text :: "ndef_record \<Rightarrow> heap \<Rightarrow> (ndef_text \<times> heap) option" where
  "ndef_record_get_text ctx h =
     do {
       is_text \<leftarrow> ndef_record_is_text h ctx;
       if \<not> is_text then Some (\<lparr> lang_p = None, text_p = None \<rparr>, h)
       else
         do {
           p0 \<leftarrow> peek h (payload_p ctx) 0;
           let lang_len = unat (p0 AND 0x3f);
           let text_len = (of_nat (payload_len ctx) - of_nat lang_len - 1 :: 64 word);
           case malloc (lang_len + 1) h of
             (None, h1) \<Rightarrow> Some (\<lparr> lang_p = None, text_p = None \<rparr>, h1)
           | (Some lang_mem, h1) \<Rightarrow>
               (case malloc (unat (text_len + 1)) h1 of
                  (None, h2) \<Rightarrow>
                    do { h3 \<leftarrow> free_buf lang_mem h2; Some (\<lparr> lang_p = None, text_p = None \<rparr>, h3) }
                | (Some text_mem, h2) \<Rightarrow>
                    do {
                      l \<leftarrow> memread h2 (payload_p ctx) 1 lang_len;
                      h3 \<leftarrow> poke lang_mem 0 l h2;
                      t \<leftarrow> memread h3 (payload_p ctx) (1 + lang_len) (unat text_len);
                      h4 \<leftarrow> poke text_mem 0 t h3;
                      h5 \<leftarrow> poke lang_mem lang_len [0] h4;
                      h6 \<leftarrow> poke text_mem (unat text_len) [0] h5;
                      Some (\<lparr> lang_p = Some lang_mem, text_p = Some text_mem \<rparr>, h6)
                    })
         }
     }"

text \<open>
  \<open>strlen\<close> runs on both strings before they are tested for \<open>NULL\<close>. The validity test
  is the source's: it turns the input down when \<open>text_len\<close> is not zero. The type byte
  written is \<open>'U'\<close> (0x55).
\<close>

definition ndef_record_new_text :: "ndef_text \<Rightarrow> heap \<Rightarrow> (ndef_record \<times> heap) option" where
  "ndef_record_new_text ctx h =
     do {
       l \<leftarrow> cstr_at h (lang_p ctx);
       t \<leftarrow> cstr_at h (text_p ctx);
       let lang_len = length l;
       let text_len = length t;
       if lang_p ctx = None \<or> text_p ctx = None \<or> lang_len < 2 \<or> text_len \<noteq> 0
       then Some (ndef_record_init, h)
       else
         (case malloc (1 + lang_len + text_len) h of
            (None, h1) \<Rightarrow> Some (ndef_record_init, h1)
          | (Some mem, h1) \<Rightarrow>
              do {
                h2 \<leftarrow> poke mem 0 ((0x00 OR of_nat lang_len) # l @ t) h1;
                case malloc 1 h2 of
                  (None, h3) \<Rightarrow> do { h4 \<leftarrow> free_buf mem h3; Some (ndef_record_init, h4) }
                | (Some ty, h3) \<Rightarrow>
                    do {
                      h4 \<leftarrow> poke ty 0 [0x55] h3;
                      Some (\<lparr> raw_index = 0, raw_len = 0, tnf = NDEF_TNF_WELL_KNOWN,
                              type_len = 1, payload_len = 1 + lang_len + text_len, id_len = 0,
                              type_p = Some ty, payload_p = Some mem, id_p = None \<rparr>, h4)
                    }
              })
     }"

text \<open>The caller's text \<open>{lang: "en", text: "hi"}\<close>: two C strings at addresses 0 and 1.\<close>

definition text_en_hi_heap :: heap where
  "text_en_hi_heap =
     \<lparr> cells = (Map.empty)(0 \<mapsto> bytes_of ''en'' @ [0], 1 \<mapsto> bytes_of ''hi'' @ [0]), brk = 2,
       outcomes = [] \<rparr>"

definition text_en_hi :: ndef_text where
  "text_en_hi = \<lparr> lang_p = Some 0, text_p = Some 1 \<rparr>"

section \<open>The message context and its record store (ndef.c)\<close>

text \<open>
  \<open>ndef_ctx_s\<close>. Each array is the list of its slots, as many as it has room for. Its
  pointer is remembered only as far as the code tests or frees it: \<open>ArrNull\<close> before the
  first allocation, \<open>ArrLive\<close> after it, \<open>ArrFreed\<close> once \<open>free\<close> has run on it, which
  leaves the pointer in place. A slot that was never written holds \<open>ndef_record_init\<close>
  here; the code does not read such a slot.
\<close>

datatype arr_state = ArrNull | ArrLive | ArrFreed

definition NDEF_MAGIC :: "32 word" where
  "NDEF_MAGIC = 0xdeadbeef"

definition SIZE_MAX :: nat where
  "SIZE_MAX = 2 ^ 64 - 1"

definition ndef_raw_record_init :: ndef_raw_record where
  "ndef_raw_record_init = ndef_record.extend ndef_record_init
     \<lparr> abs_index = 0, flag_begin = False, flag_end = False, flag_chunked = False,
       flag_short_record = False, flag_include_id_len = False \<rparr>"

record ndef_ctx_s =
  magic :: "32 word"
  raw_records_len :: nat
  raw_records_cap :: nat
  raw_records_st :: arr_state
  raw_records :: "ndef_raw_record list"
  abs_records_len :: nat
  abs_records_cap :: nat
  abs_records_st :: arr_state
  abs_records :: "ndef_record list"

text \<open>\<open>MAGIC_CHECK\<close> on a context that is not \<open>NULL\<close>: \<open>abort()\<close> unless the magic is right.\<close>

definition magic_ok :: "ndef_ctx_s \<Rightarrow> bool" where
  "magic_ok ctx = (magic ctx = NDEF_MAGIC)"

text \<open>Reading and writing one slot of an array; outside the array the behaviour is undefined.\<close>

definition arr_get :: "'a list \<Rightarrow> nat \<Rightarrow> 'a option" where
  "arr_get xs i = (if i < length xs then Some (xs ! i) else None)"

definition arr_set :: "'a list \<Rightarrow> nat \<Rightarrow> 'a \<Rightarrow> 'a list option" where
  "arr_set xs i v = (if i < length xs then Some (xs[i := v]) else None)"

text \<open>\<open>realloc\<close> of an array to \<open>cap\<close> slots that succeeded: the old slots, then new ones.\<close>

definition arr_grow :: "'a \<Rightarrow> 'a list \<Rightarrow> nat \<Rightarrow> 'a list" where
  "arr_grow junk xs cap = take cap xs @ replicate (cap - length xs) junk"

definition ndef_init :: "heap \<Rightarrow> ndef_ctx_s option \<times> heap" where
  "ndef_init h =
     (if alloc_ok h
      then (Some \<lparr> magic = NDEF_MAGIC,
                   raw_records_len = 0, raw_records_cap = 0, raw_records_st = ArrNull,
                   raw_records = [],
                   abs_records_len = 0, abs_records_cap = 0, abs_records_st = ArrNull,
                   abs_records = [] \<rparr>, alloc_next h)
      else (None, alloc_next h))"

text \<open>
  \<open>ndef_clone\<close> allocates \<open>sizeof(ndef_ctx)\<close>, the size of a pointer, and then stores a
  whole \<open>ndef_ctx_s\<close> there: when the allocation succeeds the store runs past the buffer.
\<close>

definition ndef_clone :: "ndef_ctx_s \<Rightarrow> heap \<Rightarrow> (ndef_ctx_s option \<times> heap) option" where
  "ndef_clone ctx h =
     (if \<not> magic_ok ctx then None
      else if alloc_ok h then None
      else Some (None, alloc_next h))"

definition ndef_records_len :: "ndef_ctx_s option \<Rightarrow> nat option" where
  "ndef_records_len ctx =
     (case ctx of None \<Rightarrow> None | Some c \<Rightarrow> if magic_ok c then Some (abs_records_len c) else None)"

definition ndef_records :: "ndef_ctx_s option \<Rightarrow> ndef_record list option" where
  "ndef_records ctx =
     (case ctx of None \<Rightarrow> None | Some c \<Rightarrow> if magic_ok c then Some (abs_records c) else None)"

text \<open>\<open>if (p) free(p);\<close> on an array pointer.\<close>

definition arr_free :: "arr_state \<Rightarrow> arr_state option" where
  "arr_free st = (case st of ArrNull \<Rightarrow> Some ArrNull | ArrLive \<Rightarrow> Some ArrFreed | ArrFreed \<Rightarrow> None)"

definition ndef_raw_clear :: "ndef_ctx_s \<Rightarrow> ndef_ctx_s option" where
  "ndef_raw_clear ctx =
     (if \<not> magic_ok ctx then None
      else
        do {
          st \<leftarrow> arr_free (raw_records_st ctx);
          Some (ctx\<lparr> raw_records_st := st, raw_records := [], raw_records_cap := 0,
                     raw_records_len := 0,
                     abs_records := map (\<lambda>r. r\<lparr> raw_index := 0, raw_len := 0 \<rparr>)
                                      (take (abs_records_len ctx) (abs_records ctx))
                                    @ drop (abs_records_len ctx) (abs_records ctx) \<rparr>)
        })"

definition ndef_clear :: "ndef_ctx_s \<Rightarrow> ndef_ctx_s option" where
  "ndef_clear ctx =
     do {
       rst \<leftarrow> arr_free (raw_records_st ctx);
       ast \<leftarrow> arr_free (abs_records_st ctx);
       Some (ctx\<lparr> raw_records_st := rst, raw_records := [], abs_records_st := ast,
                  abs_records := [], raw_records_cap := 0, raw_records_len := 0,
                  abs_records_cap := 0, abs_records_len := 0 \<rparr>)
     }"

definition ndef_destroy :: "ndef_ctx_s \<Rightarrow> ndef_ctx_s option" where
  "ndef_destroy ctx = do { c \<leftarrow> ndef_clear ctx; Some (c\<lparr> magic := 0 \<rparr>) }"

text \<open>\<open>ndef_splice_n\<close> has no statement after \<open>MAGIC_CHECK\<close>.\<close>

definition ndef_splice_n :: "ndef_ctx_s \<Rightarrow> nat \<Rightarrow> nat \<Rightarrow> ndef_ctx_s option" where
  "ndef_splice_n ctx index len = (if \<not> magic_ok ctx then None else Some ctx)"

definition ndef_splice :: "ndef_ctx_s \<Rightarrow> nat \<Rightarrow> ndef_ctx_s option" where
  "ndef_splice ctx index = ndef_splice_n ctx index 1"

text \<open>
  \<open>while (new_len > cap) cap *= 2;\<close> The code sets a capacity of 0 to 1 before the loop,
  so the loop never starts from 0, where it would not end.
\<close>

function grow_cap :: "nat \<Rightarrow> nat \<Rightarrow> nat" where
  "grow_cap new_len cap =
     (if cap = 0 then 0 else if new_len > cap then grow_cap new_len (cap * 2) else cap)"
  by pat_completeness auto
termination
  by (relation "measure (\<lambda>(new_len, cap). new_len - cap)") auto

declare grow_cap.simps [simp del]

text \<open>The capacity step of \<open>insert_n\<close>: \<open>None\<close> inside is the failed \<open>realloc\<close>.\<close>

definition abs_reserve :: "ndef_ctx_s \<Rightarrow> nat \<Rightarrow> heap \<Rightarrow> (ndef_ctx_s option \<times> heap) option" where
  "abs_reserve ctx new_len h =
     (if new_len > abs_records_cap ctx then
        (let cap = grow_cap new_len (if abs_records_cap ctx = 0 then 1 else abs_records_cap ctx)
         in if abs_records_st ctx = ArrFreed then None
            else if alloc_ok h
            then Some (Some (ctx\<lparr> abs_records := arr_grow ndef_record_init (abs_records ctx) cap,
                                  abs_records_cap := cap, abs_records_st := ArrLive \<rparr>),
                       alloc_next h)
            else Some (None, alloc_next h))
      else Some (Some ctx, h))"

text \<open>
  The relocation loop, \<open>i\<close> from \<open>old_len - index - 1\<close> down to 0:
  \<open>abs_records[old_len + i] = abs_records[index + i]\<close>. And the loop that undoes it,
  \<open>i\<close> from 0 up: \<open>abs_records[index + i] = abs_records[old_len + i]\<close>.
\<close>

definition shift_tail :: "ndef_record list \<Rightarrow> nat \<Rightarrow> nat \<Rightarrow> ndef_record list option" where
  "shift_tail arr old_len index =
     fold (\<lambda>i acc. do { xs \<leftarrow> acc; v \<leftarrow> arr_get xs (index + i); arr_set xs (old_len + i) v })
       (rev [0..<old_len - index]) (Some arr)"

definition undo_shift :: "ndef_record list \<Rightarrow> nat \<Rightarrow> nat \<Rightarrow> ndef_record list option" where
  "undo_shift arr old_len index =
     fold (\<lambda>i acc. do { xs \<leftarrow> acc; v \<leftarrow> arr_get xs (old_len + i); arr_set xs (index + i) v })
       [0..<old_len - index] (Some arr)"

text \<open>
  The three copies of the fill loop, on the slot \<open>p\<close> (\<open>*ptr\<close>) and the caller's record
  \<open>src\<close> (\<open>records[i]\<close>). The flag is \<open>False\<close> where the code leaves the loop by \<open>break\<close>.
\<close>

definition clone_type :: "ndef_record \<Rightarrow> ndef_record \<Rightarrow> heap \<Rightarrow> (bool \<times> ndef_record \<times> heap) option" where
  "clone_type src p h =
     (if type_len p \<noteq> 0 then
        (case malloc (unat (type_len p)) h of
           (None, h1) \<Rightarrow> Some (False, p\<lparr> type_p := None \<rparr>, h1)
         | (Some a, h1) \<Rightarrow>
             do {
               bs \<leftarrow> memread h1 (type_p src) 0 (unat (type_len p));
               h2 \<leftarrow> poke a 0 bs h1;
               Some (True, p\<lparr> type_p := Some a \<rparr>, h2)
             })
      else Some (True, p, h))"

definition clone_payload :: "ndef_record \<Rightarrow> ndef_record \<Rightarrow> heap \<Rightarrow> (bool \<times> ndef_record \<times> heap) option" where
  "clone_payload src p h =
     (if payload_len p \<noteq> 0 then
        (case malloc (payload_len p) h of
           (None, h1) \<Rightarrow>
             do { h2 \<leftarrow> free_ptr (type_p p) h1; Some (False, p\<lparr> payload_p := None \<rparr>, h2) }
         | (Some a, h1) \<Rightarrow>
             do {
               bs \<leftarrow> memread h1 (payload_p src) 0 (payload_len p);
               h2 \<leftarrow> poke a 0 bs h1;
               Some (True, p\<lparr> payload_p := Some a \<rparr>, h2)
             })
      else Some (True, p, h))"

definition clone_id :: "ndef_record \<Rightarrow> ndef_record \<Rightarrow> heap \<Rightarrow> (bool \<times> ndef_record \<times> heap) option" where
  "clone_id src p h =
     (if id_len p \<noteq> 0 then
        (case malloc (unat (id_len p)) h of
           (None, h1) \<Rightarrow>
             do {
               h2 \<leftarrow> free_ptr (type_p p) h1;
               h3 \<leftarrow> free_ptr (payload_p p) h2;
               Some (False, p\<lparr> id_p := None \<rparr>, h3)
             }
         | (Some a, h1) \<Rightarrow>
             do {
               bs \<leftarrow> memread h1 (id_p src) 0 (unat (id_len p));
               h2 \<leftarrow> poke a 0 bs h1;
               Some (True, p\<lparr> id_p := Some a \<rparr>, h2)
             })
      else Some (True, p, h))"

text \<open>One pass of the fill loop: \<open>*ptr = records[i]\<close>, then the copies unless moving.\<close>

definition fill_one :: "bool \<Rightarrow> ndef_record \<Rightarrow> heap \<Rightarrow> (bool \<times> ndef_record \<times> heap) option" where
  "fill_one is_move src h =
     (if is_move then Some (True, src, h)
      else
        do {
          (ok1, p1, h1) \<leftarrow> clone_type src src h;
          if \<not> ok1 then Some (False, p1, h1)
          else
            do {
              (ok2, p2, h2) \<leftarrow> clone_payload src p1 h1;
              if \<not> ok2 then Some (False, p2, h2)
              else clone_id src p2 h2
            }
        })"

text \<open>
  The fill loop from \<open>i\<close> on, over the records still to place. It returns the value of
  \<open>i\<close> when the loop is left: the number of records on a complete run, the index of the
  record whose copy failed after a \<open>break\<close>.
\<close>

fun fill_loop ::
  "bool \<Rightarrow> nat \<Rightarrow> ndef_record list \<Rightarrow> nat \<Rightarrow> ndef_record list \<Rightarrow> heap
   \<Rightarrow> (nat \<times> ndef_record list \<times> heap) option" where
  "fill_loop is_move index [] i arr h = Some (i, arr, h)"
| "fill_loop is_move index (src # rest) i arr h =
     do {
       (ok, p, h1) \<leftarrow> fill_one is_move src h;
       arr1 \<leftarrow> arr_set arr (index + i) p;
       if ok then fill_loop is_move index rest (Suc i) arr1 h1 else Some (i, arr1, h1)
     }"

text \<open>
  The clean-up loop after a failed copy runs \<open>x\<close> from 0 to \<open>i - 1\<close> and destroys
  \<open>abs_records[index + i]\<close> each time: the slot of the record whose copy failed.
\<close>

definition destroy_failed :: "ndef_record list \<Rightarrow> nat \<Rightarrow> nat \<Rightarrow> heap \<Rightarrow> heap option" where
  "destroy_failed arr index i h =
     fold (\<lambda>x acc. do { h1 \<leftarrow> acc; slot \<leftarrow> arr_get arr (index + i); ndef_record_destroy slot h1 })
       [0..<i] (Some h)"

definition insert_n ::
  "ndef_ctx_s \<Rightarrow> nat \<Rightarrow> ndef_record list \<Rightarrow> bool \<Rightarrow> heap \<Rightarrow> (bool \<times> ndef_ctx_s \<times> heap) option" where
  "insert_n ctx index0 records is_move h =
     (if \<not> magic_ok ctx then None
      else
        (let index = (if index0 > abs_records_len ctx then abs_records_len ctx else index0);
             len = length records;
             old_len = abs_records_len ctx;
             new_len = abs_records_len ctx + len
         in case abs_reserve ctx new_len h of
              None \<Rightarrow> None
            | Some (None, h1) \<Rightarrow> Some (False, ctx, h1)
            | Some (Some ctx1, h1) \<Rightarrow>
                do {
                  arr1 \<leftarrow> shift_tail (abs_records ctx1) old_len index;
                  (i, arr2, h2) \<leftarrow> fill_loop is_move index records 0 arr1 h1;
                  if \<not> is_move \<and> i < len then
                    do {
                      h3 \<leftarrow> destroy_failed arr2 index i h2;
                      arr3 \<leftarrow> undo_shift arr2 old_len index;
                      Some (False, ctx1\<lparr> abs_records := arr3 \<rparr>, h3)
                    }
                  else Some (True, ctx1\<lparr> abs_records := arr2, abs_records_len := new_len \<rparr>, h2)
                }))"

definition ndef_insert_n ::
  "ndef_ctx_s \<Rightarrow> nat \<Rightarrow> ndef_record list \<Rightarrow> heap \<Rightarrow> (bool \<times> ndef_ctx_s \<times> heap) option" where
  "ndef_insert_n ctx index records h = insert_n ctx index records False h"

definition ndef_insert ::
  "ndef_ctx_s \<Rightarrow> nat \<Rightarrow> ndef_record \<Rightarrow> heap \<Rightarrow> (bool \<times> ndef_ctx_s \<times> heap) option" where
  "ndef_insert ctx index record h = ndef_insert_n ctx index [record] h"

definition ndef_append ::
  "ndef_ctx_s \<Rightarrow> ndef_record \<Rightarrow> heap \<Rightarrow> (bool \<times> ndef_ctx_s \<times> heap) option" where
  "ndef_append ctx record h = ndef_insert_n ctx SIZE_MAX [record] h"

definition ndef_insert_n_mv ::
  "ndef_ctx_s \<Rightarrow> nat \<Rightarrow> ndef_record list \<Rightarrow> heap \<Rightarrow> (bool \<times> ndef_ctx_s \<times> heap) option" where
  "ndef_insert_n_mv ctx index records h = insert_n ctx index records True h"

definition ndef_insert_mv ::
  "ndef_ctx_s \<Rightarrow> nat \<Rightarrow> ndef_record \<Rightarrow> heap \<Rightarrow> (bool \<times> ndef_ctx_s \<times> heap) option" where
  "ndef_insert_mv ctx index record h = ndef_insert_n_mv ctx index [record] h"

definition ndef_append_mv ::
  "ndef_ctx_s \<Rightarrow> ndef_record \<Rightarrow> heap \<Rightarrow> (bool \<times> ndef_ctx_s \<times> heap) option" where
  "ndef_append_mv ctx record h = ndef_insert_n_mv ctx SIZE_MAX [record] h"

text \<open>The abstract records of a message: the first \<open>abs_records_len\<close> slots.\<close>

definition records_of :: "ndef_ctx_s \<Rightarrow> ndef_record list" where
  "records_of ctx = take (abs_records_len ctx) (abs_records ctx)"

definition ndef_raw_append ::
  "ndef_ctx_s \<Rightarrow> ndef_raw_record \<Rightarrow> heap \<Rightarrow> (bool \<times> ndef_ctx_s \<times> heap) option" where
  "ndef_raw_append ctx record h =
     (if \<not> magic_ok ctx then None
      else
        (case (if raw_records_len ctx \<ge> raw_records_cap ctx then
                 (let cap = (if raw_records_cap ctx = 0 then 1 else raw_records_cap ctx) * 2
                  in if raw_records_st ctx = ArrFreed then None
                     else if alloc_ok h
                     then Some (Some (ctx\<lparr> raw_records :=
                                             arr_grow ndef_raw_record_init (raw_records ctx) cap,
                                           raw_records_cap := cap, raw_records_st := ArrLive \<rparr>),
                                alloc_next h)
                     else Some (None, alloc_next h))
               else Some (Some ctx, h)) of
           None \<Rightarrow> None
         | Some (None, h1) \<Rightarrow> Some (False, ctx, h1)
         | Some (Some ctx1, h1) \<Rightarrow>
             do {
               arr \<leftarrow> arr_set (raw_records ctx1) (raw_records_len ctx1) record;
               Some (True, ctx1\<lparr> raw_records := arr,
                                raw_records_len := Suc (raw_records_len ctx1) \<rparr>, h1)
             }))"

text \<open>
  Stores and records for the statements about the record store. The three records
  \<open>rec_a\<close>, \<open>rec_b\<close>, \<open>rec_x\<close> own no buffer and differ in their TNF. \<open>store_empty\<close> is
  what \<open>ndef_init\<close> returns; \<open>store_a\<close> and \<open>store_ab\<close> are what one and two calls of
  \<open>ndef_append\<close> make of it.
\<close>

definition rec_a :: ndef_record where
  "rec_a = ndef_record_init\<lparr> tnf := NDEF_TNF_MIME \<rparr>"

definition rec_b :: ndef_record where
  "rec_b = ndef_record_init\<lparr> tnf := NDEF_TNF_URI \<rparr>"

definition rec_x :: ndef_record where
  "rec_x = ndef_record_init\<lparr> tnf := NDEF_TNF_EXTERNAL \<rparr>"

definition store_empty :: ndef_ctx_s where
  "store_empty =
     \<lparr> magic = NDEF_MAGIC,
       raw_records_len = 0, raw_records_cap = 0, raw_records_st = ArrNull, raw_records = [],
       abs_records_len = 0, abs_records_cap = 0, abs_records_st = ArrNull, abs_records = [] \<rparr>"

definition store_a :: ndef_ctx_s where
  "store_a = store_empty\<lparr> abs_records_len := 1, abs_records_cap := 1,
     abs_records_st := ArrLive, abs_records := [rec_a] \<rparr>"

definition store_ab :: ndef_ctx_s where
  "store_ab = store_empty\<lparr> abs_records_len := 2, abs_records_cap := 2,
     abs_records_st := ArrLive, abs_records := [rec_a, rec_b] \<rparr>"

text \<open>
  A batch of two records for a copying insert. The caller owns the type byte of
  \<open>batch_r0\<close> at address 0, and the type byte and the payload byte of \<open>batch_r1\<close> at
  addresses 1 and 2. The growth of the array and the copy of the first type succeed; the
  copy of the second type fails.
\<close>

definition batch_heap :: heap where
  "batch_heap =
     \<lparr> cells = (Map.empty)(0 \<mapsto> [0x61], 1 \<mapsto> [0x62], 2 \<mapsto> [0x63]), brk = 3,
       outcomes = [True, True, False] \<rparr>"

definition batch_r0 :: ndef_record where
  "batch_r0 = ndef_record_init\<lparr> tnf := NDEF_TNF_UNKNOWN, type_len := 1, type_p := Some 0 \<rparr>"

definition batch_r1 :: ndef_record where
  "batch_r1 = ndef_record_init\<lparr> tnf := NDEF_TNF_UNKNOWN, type_len := 1, payload_len := 1,
     type_p := Some 1, payload_p := Some 2 \<rparr>"

section \<open>The raw record codec (ndef.c)\<close>

definition NDEF_FLAG_MB :: byte where "NDEF_FLAG_MB = 0x80"
definition NDEF_FLAG_ME :: byte where "NDEF_FLAG_ME = 0x40"
definition NDEF_FLAG_CF :: byte where "NDEF_FLAG_CF = 0x20"
definition NDEF_FLAG_SR :: byte where "NDEF_FLAG_SR = 0x10"
definition NDEF_FLAG_IL :: byte where "NDEF_FLAG_IL = 0x08"
definition NDEF_FLAG_TNF :: byte where "NDEF_FLAG_TNF = 0x07"

text \<open>
  \<open>data[pos] << n\<close> as an operand of \<open>|=\<close> on a \<open>size_t\<close>. The byte is promoted to
  \<open>int\<close>, the shift is done in 32 bits, and the \<open>int\<close> is converted to \<open>size_t\<close>: a
  result with bit 31 set is a negative \<open>int\<close> and its conversion sets bits 32 to 63.
\<close>

definition int_shl :: "byte \<Rightarrow> nat \<Rightarrow> 64 word" where
  "int_shl b n = scast (push_bit n (ucast b :: 32 word))"

text \<open>\<open>memcpy\<close> of \<open>n\<close> bytes from \<open>data + pos\<close>, where \<open>data\<close> has \<open>length data\<close> bytes.\<close>

definition memcpy_in :: "byte list \<Rightarrow> nat \<Rightarrow> nat \<Rightarrow> byte list option" where
  "memcpy_in data pos n = (if pos + n \<le> length data then Some (take n (drop pos data)) else None)"

datatype decode_result = Decoded ndef_raw_record nat | Truncated | OutOfMemory

text \<open>
  The second half of \<open>ndef_raw_record_decode\<close>: the three fields are copied into fresh
  buffers, one step each. \<open>tmp\<close> holds what has been decoded, \<open>pos\<close> is the offset
  reached. The flag is \<open>False\<close> where the function returns for lack of memory.
\<close>

definition decode_type ::
  "byte list \<Rightarrow> ndef_raw_record \<Rightarrow> nat \<Rightarrow> heap
   \<Rightarrow> (bool \<times> ndef_raw_record \<times> nat \<times> heap) option" where
  "decode_type data tmp pos h =
     (if type_len tmp \<noteq> 0 then
        (case malloc (unat (type_len tmp)) h of
           (None, h1) \<Rightarrow> Some (False, tmp, pos, h1)
         | (Some a, h1) \<Rightarrow>
             do {
               bs \<leftarrow> memcpy_in data pos (unat (type_len tmp));
               h2 \<leftarrow> poke a 0 bs h1;
               Some (True, tmp\<lparr> type_p := Some a \<rparr>, pos + unat (type_len tmp), h2)
             })
      else Some (True, tmp\<lparr> type_p := None \<rparr>, pos, h))"

definition decode_payload ::
  "byte list \<Rightarrow> ndef_raw_record \<Rightarrow> nat \<Rightarrow> heap
   \<Rightarrow> (bool \<times> ndef_raw_record \<times> nat \<times> heap) option" where
  "decode_payload data tmp pos h =
     (if payload_len tmp \<noteq> 0 then
        (case malloc (payload_len tmp) h of
           (None, h1) \<Rightarrow> do { h2 \<leftarrow> free_ptr (type_p tmp) h1; Some (False, tmp, pos, h2) }
         | (Some a, h1) \<Rightarrow>
             do {
               bs \<leftarrow> memcpy_in data pos (payload_len tmp);
               h2 \<leftarrow> poke a 0 bs h1;
               Some (True, tmp\<lparr> payload_p := Some a \<rparr>, pos + payload_len tmp, h2)
             })
      else Some (True, tmp\<lparr> payload_p := None \<rparr>, pos, h))"

definition decode_id ::
  "byte list \<Rightarrow> ndef_raw_record \<Rightarrow> nat \<Rightarrow> heap
   \<Rightarrow> (bool \<times> ndef_raw_record \<times> nat \<times> heap) option" where
  "decode_id data tmp pos h =
     (if id_len tmp \<noteq> 0 then
        (case malloc (unat (id_len tmp)) h of
           (None, h1) \<Rightarrow>
             do {
               h2 \<leftarrow> free_ptr (type_p tmp) h1;
               h3 \<leftarrow> free_ptr (payload_p tmp) h2;
               Some (False, tmp, pos, h3)
             }
         | (Some a, h1) \<Rightarrow>
             do {
               bs \<leftarrow> memcpy_in data pos (unat (id_len tmp));
               h2 \<leftarrow> poke a 0 bs h1;
               Some (True, tmp\<lparr> id_p := Some a \<rparr>, pos + unat (id_len tmp), h2)
             })
      else Some (True, tmp\<lparr> id_p := None \<rparr>, pos, h))"

definition decode_fields ::
  "byte list \<Rightarrow> ndef_raw_record \<Rightarrow> nat \<Rightarrow> heap \<Rightarrow> (decode_result \<times> heap) option" where
  "decode_fields data tmp pos h =
     do {
       (r1, tmp1, pos1, h1) \<leftarrow> decode_type data tmp pos h;
       if \<not> r1 then Some (OutOfMemory, h1)
       else
         do {
           (r2, tmp2, pos2, h2) \<leftarrow> decode_payload data tmp1 pos1 h1;
           if \<not> r2 then Some (OutOfMemory, h2)
           else
             do {
               (r3, tmp3, pos3, h3) \<leftarrow> decode_id data tmp2 pos2 h2;
               if \<not> r3 then Some (OutOfMemory, h3) else Some (Decoded tmp3 pos3, h3)
             }
         }
     }"

text \<open>
  \<open>ndef_raw_record_decode\<close>. \<open>data\<close> is the buffer with its \<open>*len\<close> bytes. The local
  \<open>tmp\<close> is not initialised in C; its fields \<open>raw_index\<close>, \<open>raw_len\<close> and \<open>abs_index\<close>,
  which the function never sets, are 0 here. On \<open>Truncated\<close> and \<open>OutOfMemory\<close> the
  function returns \<open>false\<close> and leaves \<open>*out\<close> and \<open>*len\<close> as they were; on
  \<open>Decoded\<close> the number is the new \<open>*len\<close>. The sum in the third length check is a
  \<open>size_t\<close> and wraps.
\<close>

definition ndef_raw_record_decode :: "byte list \<Rightarrow> heap \<Rightarrow> (decode_result \<times> heap) option" where
  "ndef_raw_record_decode data h =
     (if length data < 3 then Some (Truncated, h)
      else
        do {
          b0 \<leftarrow> arr_get data 0;
          let sr = (b0 AND NDEF_FLAG_SR \<noteq> 0);
          let il = (b0 AND NDEF_FLAG_IL \<noteq> 0);
          if sr \<and> length data < 3 + of_bool il then Some (Truncated, h)
          else if \<not> sr \<and> length data < 5 + of_bool il then Some (Truncated, h)
          else
            do {
              tlen \<leftarrow> arr_get data 1;
              (plen, pos1) \<leftarrow>
                (if sr then do { b \<leftarrow> arr_get data 2; Some (ucast b, 3) }
                 else
                   do {
                     b2 \<leftarrow> arr_get data 2;
                     b3 \<leftarrow> arr_get data 3;
                     b4 \<leftarrow> arr_get data 4;
                     b5 \<leftarrow> arr_get data 5;
                     Some (0 OR int_shl b2 24 OR int_shl b3 16 OR int_shl b4 8 OR int_shl b5 0, 6)
                   });
              (ilen, pos2) \<leftarrow>
                (if il then do { b \<leftarrow> arr_get data pos1; Some (b, pos1 + 1) }
                 else Some (0, pos1));
              if length data < unat (of_nat pos2 + ucast tlen + plen + ucast ilen :: 64 word)
              then Some (Truncated, h)
              else
                decode_fields data
                  (ndef_record.extend
                     \<lparr> raw_index = 0, raw_len = 0, tnf = tnf_of (b0 AND NDEF_FLAG_TNF),
                       type_len = tlen, payload_len = unat plen, id_len = ilen,
                       type_p = None, payload_p = None, id_p = None \<rparr>
                     \<lparr> abs_index = 0,
                       flag_begin = (b0 AND NDEF_FLAG_MB \<noteq> 0),
                       flag_end = (b0 AND NDEF_FLAG_ME \<noteq> 0),
                       flag_chunked = (b0 AND NDEF_FLAG_CF \<noteq> 0),
                       flag_short_record = sr,
                       flag_include_id_len = il \<rparr>)
                  pos2 h
            }
        })"

text \<open>The output stream: a growing buffer on the heap.\<close>

record ndef_ostream =
  buf :: "addr option"
  buf_cap :: nat
  buf_len :: nat

definition ndef_ostream_init :: ndef_ostream where
  "ndef_ostream_init = \<lparr> buf = None, buf_cap = 0, buf_len = 0 \<rparr>"

definition ndef_ostream_destroy :: "ndef_ostream \<Rightarrow> heap \<Rightarrow> heap option" where
  "ndef_ostream_destroy ctx h = free_ptr (buf ctx) h"

definition ndef_ostream_append ::
  "ndef_ostream \<Rightarrow> byte \<Rightarrow> heap \<Rightarrow> (bool \<times> ndef_ostream \<times> heap) option" where
  "ndef_ostream_append ctx data h =
     do {
       (ok, ctx1, h1) \<leftarrow>
         (if buf_len ctx \<ge> buf_cap ctx then
            do {
              let cap = (if buf_cap ctx * 2 = 0 then 1 else buf_cap ctx * 2);
              (mem, h') \<leftarrow> realloc (buf ctx) cap h;
              case mem of
                None \<Rightarrow> Some (False, ctx, h')
              | Some a \<Rightarrow> Some (True, ctx\<lparr> buf := Some a, buf_cap := cap \<rparr>, h')
            }
          else Some (True, ctx, h));
       if \<not> ok then Some (False, ctx1, h1)
       else
         (case buf ctx1 of
            None \<Rightarrow> None
          | Some a \<Rightarrow>
              do {
                h2 \<leftarrow> poke a (buf_len ctx1) [data] h1;
                Some (True, ctx1\<lparr> buf_len := buf_len ctx1 + 1 \<rparr>, h2)
              })
     }"

text \<open>\<open>data\<close> is a pointer to \<open>len\<close> bytes on the heap.\<close>

definition ndef_ostream_append_n ::
  "ndef_ostream \<Rightarrow> addr option \<Rightarrow> nat \<Rightarrow> heap \<Rightarrow> (bool \<times> ndef_ostream \<times> heap) option" where
  "ndef_ostream_append_n ctx data len h =
     do {
       let cap0 = (if buf_cap ctx = 0 then 1 else buf_cap ctx);
       (ok, ctx1, h1) \<leftarrow>
         (if cap0 < buf_len ctx + len then
            do {
              let cap = grow_cap (buf_len ctx + len) cap0;
              (mem, h') \<leftarrow> realloc (buf ctx) cap h;
              case mem of
                None \<Rightarrow> Some (False, ctx, h')
              | Some a \<Rightarrow> Some (True, ctx\<lparr> buf := Some a, buf_cap := cap \<rparr>, h')
            }
          else Some (True, ctx, h));
       if \<not> ok then Some (False, ctx1, h1)
       else
         (case buf ctx1 of
            None \<Rightarrow> None
          | Some a \<Rightarrow>
              do {
                bs \<leftarrow> memread h1 data 0 len;
                h2 \<leftarrow> poke a (buf_len ctx1) bs h1;
                Some (True, ctx1\<lparr> buf_len := buf_len ctx1 + len \<rparr>, h2)
              })
     }"

text \<open>
  \<open>res = ...; if (!res) { out->buf_len = len0; return false; }\<close> followed by the rest
  of the function.
\<close>

definition checked ::
  "nat \<Rightarrow> (bool \<times> ndef_ostream \<times> heap) option
   \<Rightarrow> (ndef_ostream \<Rightarrow> heap \<Rightarrow> (bool \<times> ndef_ostream \<times> heap) option)
   \<Rightarrow> (bool \<times> ndef_ostream \<times> heap) option" where
  "checked len0 r k =
     do {
       (res, out, h) \<leftarrow> r;
       if \<not> res then Some (False, out\<lparr> buf_len := len0 \<rparr>, h) else k out h
     }"

text \<open>
  The payload length of a record that is not short: four appends joined by \<open>&=\<close>, all
  four made, then the test. For a short record the result of the single append is not
  tested.
\<close>

definition encode_payload_len ::
  "nat \<Rightarrow> ndef_raw_record \<Rightarrow> ndef_ostream \<Rightarrow> heap \<Rightarrow> (bool \<times> ndef_ostream \<times> heap) option" where
  "encode_payload_len len0 data out h =
     (if flag_short_record data then
        do {
          (res, out1, h1) \<leftarrow> ndef_ostream_append out (of_nat (payload_len data)) h;
          Some (True, out1, h1)
        }
      else
        do {
          (r1, out1, h1) \<leftarrow> ndef_ostream_append out (of_nat (drop_bit 24 (payload_len data))) h;
          (r2, out2, h2) \<leftarrow> ndef_ostream_append out1 (of_nat (drop_bit 16 (payload_len data))) h1;
          (r3, out3, h3) \<leftarrow> ndef_ostream_append out2 (of_nat (drop_bit 8 (payload_len data))) h2;
          (r4, out4, h4) \<leftarrow> ndef_ostream_append out3 (of_nat (drop_bit 0 (payload_len data))) h3;
          if \<not> (r1 \<and> r2 \<and> r3 \<and> r4) then Some (False, out4\<lparr> buf_len := len0 \<rparr>, h4)
          else Some (True, out4, h4)
        })"

definition ndef_raw_record_encode ::
  "ndef_ostream \<Rightarrow> ndef_raw_record \<Rightarrow> heap \<Rightarrow> (bool \<times> ndef_ostream \<times> heap) option" where
  "ndef_raw_record_encode out0 data h0 =
     (let len0 = buf_len out0;
          flags = (0 :: byte)
            OR NDEF_FLAG_MB * of_bool (flag_begin data)
            OR NDEF_FLAG_ME * of_bool (flag_end data)
            OR NDEF_FLAG_CF * of_bool (flag_chunked data)
            OR NDEF_FLAG_SR * of_bool (flag_short_record data)
            OR NDEF_FLAG_IL * of_bool (flag_include_id_len data)
            OR (NDEF_FLAG_TNF AND tnf_val (tnf data))
      in
      checked len0 (ndef_ostream_append out0 flags h0) (\<lambda>out1 h1.
      checked len0 (ndef_ostream_append out1 (type_len data) h1) (\<lambda>out2 h2.
      checked len0 (encode_payload_len len0 data out2 h2) (\<lambda>out3 h3.
      checked len0 (if flag_include_id_len data then ndef_ostream_append out3 (id_len data) h3
                    else Some (True, out3, h3)) (\<lambda>out4 h4.
      checked len0 (if type_len data \<noteq> 0
                    then ndef_ostream_append_n out4 (type_p data) (unat (type_len data)) h4
                    else Some (True, out4, h4)) (\<lambda>out5 h5.
      checked len0 (if payload_len data \<noteq> 0
                    then ndef_ostream_append_n out5 (payload_p data) (payload_len data) h5
                    else Some (True, out5, h5)) (\<lambda>out6 h6.
      checked len0 (if flag_include_id_len data \<and> id_len data \<noteq> 0
                    then ndef_ostream_append_n out6 (id_p data) (unat (id_len data)) h6
                    else Some (True, out6, h6)) (\<lambda>out7 h7.
      Some (True, out7, h7)))))))))"

section \<open>Messages (ndef.c)\<close>

text \<open>
  The parsing loop of \<open>ndef_decode\<close>, from offset \<open>pos\<close> on. The flag returned is the
  local \<open>partial\<close>. The loop is left by \<open>break\<close> when a record does not decode or
  cannot be appended.
\<close>

function decode_loop :: "byte list \<Rightarrow> nat \<Rightarrow> ndef_ctx_s \<Rightarrow> heap \<Rightarrow> (bool \<times> ndef_ctx_s \<times> heap) option" where
  "decode_loop data pos ctx h =
     (if length data > pos then
        (case ndef_raw_record_decode (drop pos data) h of
           None \<Rightarrow> None
         | Some (Decoded record record_len, h1) \<Rightarrow>
             (case ndef_raw_append ctx record h1 of
                None \<Rightarrow> None
              | Some (res, ctx1, h2) \<Rightarrow>
                  if \<not> res then Some (True, ctx1, h2)
                  else decode_loop data (pos + record_len) ctx1 h2)
         | Some (Truncated, h1) \<Rightarrow> Some (True, ctx, h1)
         | Some (OutOfMemory, h1) \<Rightarrow> Some (True, ctx, h1))
      else Some (False, ctx, h))"
  by pat_completeness auto

text \<open>
  Each pass moves \<open>pos\<close> forward by what the record took, which is never 0: the
  measure \<open>*len - pos\<close> decreases.
\<close>

lemma decode_type_consumed:
  assumes "decode_type data tmp pos h = Some (True, tmp', pos', h')" "pos \<le> length data"
  shows "pos \<le> pos' \<and> pos' \<le> length data"
  using assms unfolding decode_type_def memcpy_in_def
  by (auto simp: Option.bind_eq_Some_conv split: if_splits prod.splits option.splits)

lemma decode_payload_consumed:
  assumes "decode_payload data tmp pos h = Some (True, tmp', pos', h')" "pos \<le> length data"
  shows "pos \<le> pos' \<and> pos' \<le> length data"
  using assms unfolding decode_payload_def memcpy_in_def
  by (auto simp: Option.bind_eq_Some_conv split: if_splits prod.splits option.splits)

lemma decode_id_consumed:
  assumes "decode_id data tmp pos h = Some (True, tmp', pos', h')" "pos \<le> length data"
  shows "pos \<le> pos' \<and> pos' \<le> length data"
  using assms unfolding decode_id_def memcpy_in_def
  by (auto simp: Option.bind_eq_Some_conv split: if_splits prod.splits option.splits)

lemma decode_fields_consumed:
  assumes "decode_fields data tmp pos h = Some (Decoded r n, h')" "pos \<le> length data"
  shows "pos \<le> n \<and> n \<le> length data"
proof -
  from assms(1) obtain tmp1 pos1 h1 tmp2 pos2 h2 where
    a: "decode_type data tmp pos h = Some (True, tmp1, pos1, h1)" and
    b: "decode_payload data tmp1 pos1 h1 = Some (True, tmp2, pos2, h2)" and
    c: "decode_id data tmp2 pos2 h2 = Some (True, r, n, h')"
    unfolding decode_fields_def
    by (auto simp: Option.bind_eq_Some_conv split: if_splits)
  from decode_type_consumed [OF a assms(2)] have 1: "pos \<le> pos1" "pos1 \<le> length data" by simp_all
  from decode_payload_consumed [OF b 1(2)] have 2: "pos1 \<le> pos2" "pos2 \<le> length data" by simp_all
  from decode_id_consumed [OF c 2(2)] 1 2 show ?thesis by simp
qed


lemma ndef_raw_record_decode_consumed:
  assumes "ndef_raw_record_decode data h = Some (Decoded r n, h')"
  shows "3 \<le> n \<and> n \<le> length data"
proof -
  from assms obtain tmp pos where f: "decode_fields data tmp pos h = Some (Decoded r n, h')"
    and pos: "3 \<le> pos" "pos \<le> length data"
    unfolding ndef_raw_record_decode_def arr_get_def
    by (auto simp: Option.bind_eq_Some_conv Let_def split: if_splits)
  from decode_fields_consumed [OF f pos(2)] pos show ?thesis by simp
qed

termination decode_loop
  by (relation "measure (\<lambda>(data, pos, ctx, h). length data - pos)")
     (auto dest!: ndef_raw_record_decode_consumed)

declare decode_loop.simps [simp del]


text \<open>
  The second loop of \<open>ndef_decode\<close>: every raw record gets its indices and its member
  \<open>abstract\<close> is appended by copy. The result of \<open>ndef_append\<close> is not looked at.
\<close>

definition promote_step ::
  "nat \<Rightarrow> (ndef_ctx_s \<times> heap) option \<Rightarrow> (ndef_ctx_s \<times> heap) option" where
  "promote_step i acc =
     do {
       (ctx, h) \<leftarrow> acc;
       raw \<leftarrow> arr_get (raw_records ctx) i;
       let raw1 = raw\<lparr> abs_index := i, raw_index := i, raw_len := 1 \<rparr>;
       arr \<leftarrow> arr_set (raw_records ctx) i raw1;
       (res, ctx1, h1) \<leftarrow> ndef_append (ctx\<lparr> raw_records := arr \<rparr>) (ndef_record.truncate raw1) h;
       Some (ctx1, h1)
     }"

definition promote_loop :: "ndef_ctx_s \<Rightarrow> heap \<Rightarrow> (ndef_ctx_s \<times> heap) option" where
  "promote_loop ctx h = fold promote_step [0..<raw_records_len ctx] (Some (ctx, h))"

text \<open>
  \<open>ndef_decode\<close> on a buffer of \<open>*len\<close> bytes. The inner \<open>None\<close> is the \<open>NULL\<close>
  returned for an empty input. When \<open>ndef_init\<close> returns \<open>NULL\<close> the function goes on
  with the null context: the first pass of the loop then ends in \<open>abort()\<close> or in a read
  through the null pointer.
\<close>

definition ndef_decode :: "byte list \<Rightarrow> heap \<Rightarrow> (ndef_ctx_s option \<times> heap) option" where
  "ndef_decode data h =
     (if data = [] then Some (None, h)
      else
        (case ndef_init h of
           (None, h1) \<Rightarrow> None
         | (Some ctx, h1) \<Rightarrow>
             do {
               (partial, ctx1, h2) \<leftarrow> decode_loop data 0 ctx h1;
               (ctx2, h3) \<leftarrow> promote_loop ctx1 h2;
               Some (Some ctx2, h3)
             }))"

text \<open>
  The loop of \<open>ndef_encode\<close>, with \<open>k\<close> records still to write and \<open>i\<close> the index of
  the next one.
\<close>

fun encode_loop ::
  "ndef_ctx_s \<Rightarrow> nat \<Rightarrow> nat \<Rightarrow> ndef_ostream \<Rightarrow> heap \<Rightarrow> (bool \<times> ndef_ostream \<times> heap) option" where
  "encode_loop ctx 0 i out h = Some (True, out, h)"
| "encode_loop ctx (Suc k) i out h =
     do {
       r \<leftarrow> arr_get (abs_records ctx) i;
       let raw = ndef_record.extend r
         \<lparr> abs_index = i,
           flag_begin = (i = 0),
           flag_end = (i = abs_records_len ctx - 1),
           flag_chunked = False,
           flag_short_record = (payload_len r AND 0xffffff00 = 0),
           flag_include_id_len = (id_len r \<noteq> 0) \<rparr>;
       (res, out1, h1) \<leftarrow> ndef_raw_record_encode out raw h;
       if \<not> res then do { h2 \<leftarrow> ndef_ostream_destroy out1 h1; Some (False, out1, h2) }
       else encode_loop ctx k (Suc i) out1 h1
     }"

text \<open>
  \<open>ndef_encode\<close>. The first component is \<open>None\<close> when the function returns \<open>false\<close>,
  and otherwise what it stores in \<open>*out_data\<close> and \<open>*out_len\<close>.
\<close>

definition ndef_encode ::
  "ndef_ctx_s \<Rightarrow> heap \<Rightarrow> ((addr option \<times> nat) option \<times> ndef_ctx_s \<times> heap) option" where
  "ndef_encode ctx h =
     (if \<not> magic_ok ctx then None
      else
        do {
          ctx1 \<leftarrow> ndef_raw_clear ctx;
          (res, out, h1) \<leftarrow> encode_loop ctx1 (abs_records_len ctx1) 0 ndef_ostream_init h;
          Some (if res then Some (buf out, buf_len out) else None, ctx1, h1)
        })"

section \<open>Smart posters (ndef_smartposter.c)\<close>

record ndef_smartposter =
  sp_ndef :: "ndef_ctx_s option"
  sp_uri :: "addr option"
  sp_text :: ndef_text

definition ndef_smartposter_init :: ndef_smartposter where
  "ndef_smartposter_init =
     \<lparr> sp_ndef = None, sp_uri = None, sp_text = \<lparr> lang_p = None, text_p = None \<rparr> \<rparr>"

definition ndef_record_is_smartposter :: "heap \<Rightarrow> ndef_record \<Rightarrow> bool option" where
  "ndef_record_is_smartposter h ctx =
     (if tnf ctx = NDEF_TNF_WELL_KNOWN \<and> type_len ctx = 2 \<and> payload_len ctx \<noteq> 0
      then
        do {
          t0 \<leftarrow> peek h (type_p ctx) 0;
          if t0 = 0x53 then do { t1 \<leftarrow> peek h (type_p ctx) 1; Some (t1 = 0x70) } else Some False
        }
      else Some False)"

text \<open>
  The two search loops of \<open>ndef_record_get_smartposter\<close>: the result of the last call
  made, which is the first one that is not null.
\<close>

fun first_uri :: "ndef_record list \<Rightarrow> heap \<Rightarrow> (addr option \<times> heap) option" where
  "first_uri [] h = Some (None, h)"
| "first_uri (r # rs) h =
     do {
       (u, h1) \<leftarrow> ndef_record_get_uri r h;
       if u \<noteq> None then Some (u, h1) else first_uri rs h1
     }"

fun first_text :: "ndef_record list \<Rightarrow> heap \<Rightarrow> (ndef_text \<times> heap) option" where
  "first_text [] h = Some (\<lparr> lang_p = None, text_p = None \<rparr>, h)"
| "first_text (r # rs) h =
     do {
       (t, h1) \<leftarrow> ndef_record_get_text r h;
       if lang_p t \<noteq> None then Some (t, h1) else first_text rs h1
     }"

text \<open>
  \<open>ndef_decode(ctx.payload, &payload_len)\<close>: a null pointer or a length of 0 gives
  \<open>NULL\<close>; otherwise the buffer must hold the \<open>payload_len\<close> bytes it is said to hold.
\<close>

definition ndef_decode_at ::
  "addr option \<Rightarrow> nat \<Rightarrow> heap \<Rightarrow> (ndef_ctx_s option \<times> heap) option" where
  "ndef_decode_at p len h =
     (if p = None \<or> len = 0 then Some (None, h)
      else do { data \<leftarrow> memread h p 0 len; ndef_decode data h })"

definition ndef_record_get_smartposter ::
  "ndef_record \<Rightarrow> heap \<Rightarrow> (ndef_smartposter \<times> heap) option" where
  "ndef_record_get_smartposter ctx h =
     do {
       (inner, h1) \<leftarrow> ndef_decode_at (payload_p ctx) (payload_len ctx) h;
       n \<leftarrow> ndef_records_len inner;
       recs \<leftarrow> ndef_records inner;
       (u, h2) \<leftarrow> first_uri (take n recs) h1;
       (t, h3) \<leftarrow> first_text (take n recs) h2;
       Some (\<lparr> sp_ndef = inner, sp_uri = u, sp_text = t \<rparr>, h3)
     }"

text \<open>The loop of \<open>ndef_record_new_smartposter\<close> that sets \<open>has_uri\<close> and \<open>has_text\<close>.\<close>

fun has_uri_text :: "heap \<Rightarrow> ndef_record list \<Rightarrow> bool \<times> bool \<Rightarrow> (bool \<times> bool) option" where
  "has_uri_text h [] acc = Some acc"
| "has_uri_text h (r # rs) (has_uri, has_text) =
     do {
       u \<leftarrow> ndef_record_is_uri h r;
       t \<leftarrow> ndef_record_is_text h r;
       has_uri_text h rs (has_uri \<or> u, has_text \<or> t)
     }"

text \<open>
  \<open>ndef_record_new_smartposter\<close>. The results of the appends and of \<open>ndef_encode\<close> are
  not looked at; when \<open>ndef_encode\<close> returns \<open>false\<close> the locals \<open>data\<close> and \<open>len\<close> are
  used without a value. The record returned has \<open>type_len = 1\<close>.
\<close>

definition ndef_record_new_smartposter ::
  "ndef_smartposter \<Rightarrow> heap \<Rightarrow> (ndef_record \<times> heap) option" where
  "ndef_record_new_smartposter ctx h =
     do {
       (inner, h1) \<leftarrow>
         (case sp_ndef ctx of None \<Rightarrow> Some (ndef_init h) | Some c \<Rightarrow> ndef_clone c h);
       n \<leftarrow> ndef_records_len inner;
       recs \<leftarrow> ndef_records inner;
       c0 \<leftarrow> inner;
       (has_uri, has_text) \<leftarrow> has_uri_text h1 (take n recs) (False, False);
       (c1, h2) \<leftarrow>
         (if \<not> has_uri \<and> sp_uri ctx \<noteq> None then
            do {
              s \<leftarrow> cstr_at h1 (sp_uri ctx);
              (r, h') \<leftarrow> ndef_record_new_uri s h1;
              (res, c', h'') \<leftarrow> ndef_append_mv c0 r h';
              Some (c', h'')
            }
          else Some (c0, h1));
       (c2, h3) \<leftarrow>
         (if \<not> has_text \<and> lang_p (sp_text ctx) \<noteq> None \<and> text_p (sp_text ctx) \<noteq> None then
            do {
              (r, h') \<leftarrow> ndef_record_new_text (sp_text ctx) h2;
              (res, c', h'') \<leftarrow> ndef_append_mv c1 r h';
              Some (c', h'')
            }
          else Some (c1, h2));
       (enc, c3, h4) \<leftarrow> ndef_encode c2 h3;
       (data, len) \<leftarrow> enc;
       c4 \<leftarrow> ndef_destroy c3;
       case malloc 2 h4 of
         (None, h5) \<Rightarrow> do { h6 \<leftarrow> free_ptr data h5; Some (ndef_record_init, h6) }
       | (Some ty, h5) \<Rightarrow>
           do {
             h6 \<leftarrow> poke ty 0 [0x53, 0x70] h5;
             Some (\<lparr> raw_index = 0, raw_len = 0, tnf = NDEF_TNF_WELL_KNOWN, type_len = 1,
                     payload_len = len, id_len = 0, type_p = Some ty, payload_p = data,
                     id_p = None \<rparr>, h6)
           }
     }"

text \<open>
  A smart poster with the URI \<open>https://x\<close>, stored as a C string at address 0, no inner
  message and no text; and the record \<open>ndef_record_new_smartposter\<close> makes of it.
\<close>

definition sp_heap :: heap where
  "sp_heap =
     \<lparr> cells = (Map.empty)(0 \<mapsto> bytes_of ''https://x'' @ [0]), brk = 2, outcomes = [] \<rparr>"

definition sp_in :: ndef_smartposter where
  "sp_in = \<lparr> sp_ndef = None, sp_uri = Some 0, sp_text = \<lparr> lang_p = None, text_p = None \<rparr> \<rparr>"

definition sp_out :: ndef_record where
  "sp_out =
     \<lparr> raw_index = 0, raw_len = 0, tnf = NDEF_TNF_WELL_KNOWN, type_len = 1, payload_len = 6,
       id_len = 0, type_p = Some 8, payload_p = Some 7, id_p = None \<rparr>"

text \<open>
  Two inputs of six bytes. \<open>cut_input\<close>: flags 09 (not short, ID length present,
  TNF 1), type length 1, payload length 00 00 00 00, and nothing more: the ID length and
  the type byte are missing. \<open>wrap_input\<close>: flags 01 (not short, no ID length, TNF 1),
  type length 1, payload length FF FF FF FF. And the encoding of one short URI record.
\<close>

definition cut_input :: "byte list" where
  "cut_input = [0x09, 0x01, 0x00, 0x00, 0x00, 0x00]"

definition wrap_input :: "byte list" where
  "wrap_input = [0x01, 0x01, 0xFF, 0xFF, 0xFF, 0xFF]"

definition uri_record_bytes :: "byte list" where
  "uri_record_bytes = [0xD1, 0x01, 0x02, 0x55, 0x04, 0x78]"

text \<open>
  A record with a payload of \<open>2 ^ 31\<close> zero bytes at address 0, and the store that
  \<open>ndef_append_mv\<close> makes of the empty store and that record.
\<close>

definition big_heap :: heap where
  "big_heap = \<lparr> cells = (Map.empty)(0 \<mapsto> replicate 2147483648 0), brk = 2, outcomes = [] \<rparr>"

definition big_record :: ndef_record where
  "big_record = ndef_record_init\<lparr> tnf := NDEF_TNF_UNKNOWN, payload_len := 2147483648,
     payload_p := Some 0 \<rparr>"

definition big_store :: ndef_ctx_s where
  "big_store = store_empty\<lparr> abs_records_len := 1, abs_records_cap := 1,
     abs_records_st := ArrLive, abs_records := [big_record] \<rparr>"

text \<open>
  A record with a type, a payload and an ID, all owned by the caller, and the store that
  \<open>ndef_append_mv\<close> makes of the empty store and that record.
\<close>

definition rt_heap :: heap where
  "rt_heap =
     \<lparr> cells = (Map.empty)(0 \<mapsto> bytes_of ''ty'', 1 \<mapsto> bytes_of ''payload'', 2 \<mapsto> bytes_of ''id''),
       brk = 3, outcomes = [] \<rparr>"

definition rt_record :: ndef_record where
  "rt_record = ndef_record_init\<lparr> tnf := NDEF_TNF_EXTERNAL, type_len := 2, payload_len := 7,
     id_len := 2, type_p := Some 0, payload_p := Some 1, id_p := Some 2 \<rparr>"

definition rt_store :: ndef_ctx_s where
  "rt_store = store_empty\<lparr> abs_records_len := 1, abs_records_cap := 1,
     abs_records_st := ArrLive, abs_records := [rt_record] \<rparr>"

section \<open>Properties of the URI codec\<close>

lemma c_str_no_nul: "0 \<notin> set p \<Longrightarrow> c_str p = p"
  by (induction p) (auto simp: c_str_def)

lemma c_str_Nil [simp]: "c_str [] = []"
  by (simp add: c_str_def)

lemma c_str_Cons: "c_str (d # u) = (if d = 0 then [] else d # c_str u)"
  by (simp add: c_str_def)

lemma strncmp_prefix:
  "0 \<notin> set p \<Longrightarrow> (strncmp p u (length p) = 0) = prefix p (c_str u)"
proof (induction p arbitrary: u)
  case Nil
  then show ?case by simp
next
  case (Cons c p)
  then have c: "c \<noteq> 0" and p: "0 \<notin> set p" by auto
  show ?case
  proof (cases u)
    case Nil
    with c show ?thesis by (simp add: unat_eq_0 uint_0_iff)
  next
    case (Cons d u')
    show ?thesis
    proof (cases "c = d")
      case True
      with c Cons Cons.IH [OF p, of u'] show ?thesis by (simp add: c_str_Cons)
    next
      case False
      then have "uint c \<noteq> uint d" by (simp add: word_uint_eq_iff)
      with False Cons show ?thesis by (auto simp: c_str_Cons)
    qed
  qed
qed

lemma table_length: "length ndef_uri_abbrev_table = NDEF_URI_ABBREVMAX"
  by (simp add: ndef_uri_abbrev_table_def NDEF_URI_ABBREVMAX_def)

lemma table_no_nul: "\<forall>p \<in> set ndef_uri_abbrev_table. 0 \<notin> set p"
  by (simp add: ndef_uri_abbrev_table_def bytes_of_def)

lemma table_nth_no_nul: "i < NDEF_URI_ABBREVMAX \<Longrightarrow> 0 \<notin> set (ndef_uri_abbrev_table ! i)"
  using table_no_nul table_length by (metis nth_mem)

lemma table_0: "ndef_uri_abbrev_table ! 0 = []"
  by (simp add: ndef_uri_abbrev_table_def bytes_of_def)

lemma table_nonempty: "\<forall>p \<in> set (tl ndef_uri_abbrev_table). p \<noteq> []"
  by (simp add: ndef_uri_abbrev_table_def bytes_of_def)

lemma table_nth_nonempty:
  assumes "0 < i" "i < NDEF_URI_ABBREVMAX" shows "ndef_uri_abbrev_table ! i \<noteq> []"
proof -
  from assms have "ndef_uri_abbrev_table ! i = tl ndef_uri_abbrev_table ! (i - 1)"
    by (simp add: nth_tl table_length)
  moreover from assms have "i - 1 < length (tl ndef_uri_abbrev_table)"
    by (simp add: table_length)
  ultimately show ?thesis using table_nonempty by (metis nth_mem)
qed

lemma uri_match_step_inv:
  assumes "match_inv uri S acc" "i < NDEF_URI_ABBREVMAX"
  shows "match_inv uri (insert i S) (uri_match_step uri i acc)"
proof -
  obtain m ml where acc: "acc = (m, ml)" by (cases acc)
  have len: "strlen (ndef_uri_abbrev_table ! i) = length (ndef_uri_abbrev_table ! i)"
    using table_nth_no_nul [OF assms(2)] by (simp add: strlen_def c_str_no_nul)
  have cmp: "(strncmp (ndef_uri_abbrev_table ! i) uri (length (ndef_uri_abbrev_table ! i)) = 0)
      = prefix (ndef_uri_abbrev_table ! i) (c_str uri)"
    using table_nth_no_nul [OF assms(2)] by (rule strncmp_prefix)
  show ?thesis
    using assms unfolding acc match_inv_def uri_match_step_def
    by (auto simp: len cmp Let_def)
qed

lemma uri_match_fold_inv:
  "match_inv uri S acc \<Longrightarrow> \<forall>i\<in>set js. i < NDEF_URI_ABBREVMAX \<Longrightarrow>
   match_inv uri (S \<union> set js) (fold (uri_match_step uri) js acc)"
proof (induction js arbitrary: S acc)
  case Nil
  then show ?case by simp
next
  case (Cons j js)
  from Cons.prems have "match_inv uri (insert j S) (uri_match_step uri j acc)"
    by (simp add: uri_match_step_inv)
  from Cons.IH [OF this] Cons.prems(2) show ?case by simp
qed

lemma uri_match_inv:
  "match_inv uri {1..<NDEF_URI_ABBREVMAX} (uri_match uri)"
proof -
  have "match_inv uri {} (0, 0)"
    by (simp add: match_inv_def table_0 NDEF_URI_ABBREVMAX_def)
  from uri_match_fold_inv [OF this, of "[1..<NDEF_URI_ABBREVMAX]"]
  show ?thesis by (simp add: uri_match_def)
qed

lemma c_str_drop_prefix:
  "prefix p (c_str u) \<Longrightarrow> c_str (drop (length p) u) = drop (length p) (c_str u)"
proof (induction p arbitrary: u)
  case Nil
  then show ?case by simp
next
  case (Cons c p)
  then show ?case by (cases u) (auto simp: c_str_Cons split: if_splits)
qed

lemma new_uri_ok:
  assumes "outcomes h = []"
  shows "\<exists>r h'. new_uri b uri h = Some (r, h') \<and> tnf r = NDEF_TNF_WELL_KNOWN
     \<and> type_bytes h' r = Some [0x55]
     \<and> payload_bytes h' r = Some (b # c_str uri)"
  using assms
  by (simp add: new_uri_def malloc_def alloc_ok_def alloc_next_def poke_def strlen_def
      payload_bytes_def type_bytes_def memread_def)


lemma uri_match_step_prefix:
  assumes "i < NDEF_URI_ABBREVMAX"
  shows "uri_match_step uri i (m, ml) =
     (if length (ndef_uri_abbrev_table ! i) > ml \<and> prefix (ndef_uri_abbrev_table ! i) (c_str uri)
      then (i, length (ndef_uri_abbrev_table ! i)) else (m, ml))"
proof -
  have len: "strlen (ndef_uri_abbrev_table ! i) = length (ndef_uri_abbrev_table ! i)"
    using table_nth_no_nul [OF assms] by (simp add: strlen_def c_str_no_nul)
  have cmp: "(strncmp (ndef_uri_abbrev_table ! i) uri (length (ndef_uri_abbrev_table ! i)) = 0)
      = prefix (ndef_uri_abbrev_table ! i) (c_str uri)"
    using table_nth_no_nul [OF assms] by (rule strncmp_prefix)
  show ?thesis by (simp add: uri_match_step_def len cmp Let_def)
qed

lemma table_bytes: "ndef_uri_abbrev_table =
     [[],
      [104, 116, 116, 112, 58, 47, 47, 119, 119, 119, 46],
      [104, 116, 116, 112, 115, 58, 47, 47, 119, 119, 119, 46],
      [104, 116, 116, 112, 58, 47, 47],
      [104, 116, 116, 112, 115, 58, 47, 47],
      [116, 101, 108, 58],
      [109, 97, 105, 108, 116, 111, 58],
      [102, 116, 112, 58, 47, 47, 97, 110, 111, 110, 121, 109, 111, 117, 115, 58, 97, 110, 111, 110, 121, 109, 111, 117, 115, 64],
      [102, 116, 112, 58, 47, 47, 102, 116, 112, 46],
      [102, 116, 112, 115, 58, 47, 47],
      [115, 102, 116, 112, 58, 47, 47],
      [115, 109, 98, 58, 47, 47],
      [110, 102, 115, 58, 47, 47],
      [102, 116, 112, 58, 47, 47],
      [100, 97, 118, 58, 47, 47],
      [110, 101, 119, 115, 58],
      [116, 101, 108, 110, 101, 116, 58, 47, 47],
      [105, 109, 97, 112, 58],
      [114, 116, 115, 112, 58, 47, 47],
      [117, 114, 110, 58],
      [112, 111, 112, 58],
      [115, 105, 112, 58],
      [115, 105, 112, 115, 58],
      [116, 102, 116, 112, 58],
      [98, 116, 115, 112, 112, 58, 47, 47],
      [98, 116, 108, 50, 99, 97, 112, 58, 47, 47],
      [98, 116, 103, 111, 101, 112, 58, 47, 47],
      [116, 99, 112, 111, 98, 101, 120, 58, 47, 47],
      [105, 114, 100, 97, 111, 98, 101, 120, 58, 47, 47],
      [102, 105, 108, 101, 58, 47, 47],
      [117, 114, 110, 58, 101, 112, 99, 58, 105, 100, 58],
      [117, 114, 110, 58, 101, 112, 99, 58, 116, 97, 103, 58],
      [117, 114, 110, 58, 101, 112, 99, 58, 112, 97, 116, 58],
      [117, 114, 110, 58, 101, 112, 99, 58, 114, 97, 119, 58],
      [117, 114, 110, 58, 101, 112, 99, 58],
      [117, 114, 110, 58, 110, 102, 99, 58]]"
  by (simp add: ndef_uri_abbrev_table_def bytes_of_def)

lemma uri_match_http_www_x: "uri_match (bytes_of ''http://www.x'') = (1, 11)"
  by (simp add: uri_match_def NDEF_URI_ABBREVMAX_def upt_conv_Cons uri_match_step_prefix
      bytes_of_def c_str_def table_bytes)
lemma new_uri_longest:
  assumes "outcomes h = []"
  shows "\<exists>r h' k. ndef_record_new_uri uri h = Some (r, h') \<and> k < NDEF_URI_ABBREVMAX
     \<and> tnf r = NDEF_TNF_WELL_KNOWN \<and> type_bytes h' r = Some [0x55]
     \<and> payload_bytes h' r =
          Some (of_nat k # drop (length (ndef_uri_abbrev_table ! k)) (c_str uri))
     \<and> (k = 0 \<longrightarrow>
          (\<forall>i\<in>{1..<NDEF_URI_ABBREVMAX}. \<not> prefix (ndef_uri_abbrev_table ! i) (c_str uri)))
     \<and> (k \<noteq> 0 \<longrightarrow>
          ndef_uri_abbrev_table ! k \<noteq> [] \<and> prefix (ndef_uri_abbrev_table ! k) (c_str uri) \<and>
          (\<forall>i\<in>{1..<NDEF_URI_ABBREVMAX}. prefix (ndef_uri_abbrev_table ! i) (c_str uri) \<longrightarrow>
             length (ndef_uri_abbrev_table ! i) \<le> length (ndef_uri_abbrev_table ! k)))"
proof -
  obtain k ml where km: "uri_match uri = (k, ml)" by (cases "uri_match uri")
  from uri_match_inv [of uri] have
    k: "k < NDEF_URI_ABBREVMAX" and ml: "ml = length (ndef_uri_abbrev_table ! k)" and
    pre: "k = 0 \<or> prefix (ndef_uri_abbrev_table ! k) (c_str uri)" and
    best: "\<forall>i\<in>{1..<NDEF_URI_ABBREVMAX}. prefix (ndef_uri_abbrev_table ! i) (c_str uri) \<longrightarrow>
        length (ndef_uri_abbrev_table ! i) \<le> length (ndef_uri_abbrev_table ! k)"
    by (auto simp: km match_inv_def)
  have pre': "prefix (ndef_uri_abbrev_table ! k) (c_str uri)"
    using pre by (auto simp: table_0)
  have rest: "c_str (drop ml uri) = drop (length (ndef_uri_abbrev_table ! k)) (c_str uri)"
    unfolding ml using pre' by (rule c_str_drop_prefix)
  from new_uri_ok [OF assms, of "of_nat k" "drop ml uri"] obtain r h' where
    r: "new_uri (of_nat k) (drop ml uri) h = Some (r, h')" "tnf r = NDEF_TNF_WELL_KNOWN"
       "type_bytes h' r = Some [0x55]" "payload_bytes h' r = Some (of_nat k # c_str (drop ml uri))"
    by blast
  have none: "k = 0 \<longrightarrow>
      (\<forall>i\<in>{1..<NDEF_URI_ABBREVMAX}. \<not> prefix (ndef_uri_abbrev_table ! i) (c_str uri))"
  proof (intro impI ballI notI)
    fix i assume "k = 0" and i: "i \<in> {1..<NDEF_URI_ABBREVMAX}"
      and "prefix (ndef_uri_abbrev_table ! i) (c_str uri)"
    with best have "length (ndef_uri_abbrev_table ! i) \<le> 0" by (auto simp: table_0)
    moreover from i have "ndef_uri_abbrev_table ! i \<noteq> []" by (simp add: table_nth_nonempty)
    ultimately show False by simp
  qed
  have some: "k \<noteq> 0 \<longrightarrow> ndef_uri_abbrev_table ! k \<noteq> []"
    using k by (simp add: table_nth_nonempty)
  show ?thesis
    using r k none some pre' best
    by (intro exI [of _ r] exI [of _ h'] exI [of _ k]) (simp add: ndef_record_new_uri_def km rest)
qed

lemma new_uri_http_www_x:
  "\<exists>r h'. ndef_record_new_uri (bytes_of ''http://www.x'') (heap_init []) = Some (r, h') \<and>
     payload_bytes h' r = Some (1 # bytes_of ''x'')"
proof -
  have "outcomes (heap_init []) = []" by (simp add: heap_init_def)
  from new_uri_ok [OF this, of 1 "drop 11 (bytes_of ''http://www.x'')"]
  have "\<exists>r h'. new_uri 1 [120] (heap_init []) = Some (r, h') \<and>
      payload_bytes h' r = Some [1, 120]"
    by (simp add: bytes_of_def c_str_def) blast
  then show ?thesis
    by (simp add: ndef_record_new_uri_def uri_match_http_www_x)
       (simp add: bytes_of_def)
qed

text \<open>
  C9. With an allocator that does not fail, \<open>ndef_record_new_uri\<close> returns a well-known record
  of type \<open>U\<close> whose payload is the index \<open>k\<close> of a table entry followed by the string
  without that entry. If no entry from index 1 on is a prefix of the string, \<open>k\<close> is 0 and the
  whole string follows. Otherwise entry \<open>k\<close> is non-empty, is a prefix of the string, and no
  entry that is a prefix is longer. For \<open>http://www.x\<close> the payload is the byte 1 followed
  by \<open>x\<close>: index 1 (\<open>http://www.\<close>) wins over index 3 (\<open>http://\<close>).
\<close>

theorem ndef_record_new_uri_longest_prefix:
  "(outcomes h = [] \<longrightarrow>
     (\<exists>r h' k. ndef_record_new_uri uri h = Some (r, h') \<and> k < NDEF_URI_ABBREVMAX
       \<and> tnf r = NDEF_TNF_WELL_KNOWN \<and> type_bytes h' r = Some [0x55]
       \<and> payload_bytes h' r =
            Some (of_nat k # drop (length (ndef_uri_abbrev_table ! k)) (c_str uri))
       \<and> (k = 0 \<longrightarrow>
            (\<forall>i\<in>{1..<NDEF_URI_ABBREVMAX}. \<not> prefix (ndef_uri_abbrev_table ! i) (c_str uri)))
       \<and> (k \<noteq> 0 \<longrightarrow>
            ndef_uri_abbrev_table ! k \<noteq> [] \<and> prefix (ndef_uri_abbrev_table ! k) (c_str uri) \<and>
            (\<forall>i\<in>{1..<NDEF_URI_ABBREVMAX}. prefix (ndef_uri_abbrev_table ! i) (c_str uri) \<longrightarrow>
               length (ndef_uri_abbrev_table ! i) \<le> length (ndef_uri_abbrev_table ! k)))))
   \<and> (\<exists>r h'. ndef_record_new_uri (bytes_of ''http://www.x'') (heap_init []) = Some (r, h') \<and>
         payload_bytes h' r = Some (1 # bytes_of ''x''))"
  using new_uri_longest [of h uri] new_uri_http_www_x by blast

theorem ndef_record_new_uri_longest_prefix_witness:
  "outcomes (heap_init []) = [] \<and>
   (\<exists>r h' k. ndef_record_new_uri (bytes_of ''https://x'') (heap_init []) = Some (r, h')
      \<and> k < NDEF_URI_ABBREVMAX
      \<and> payload_bytes h' r =
           Some (of_nat k # drop (length (ndef_uri_abbrev_table ! k)) (c_str (bytes_of ''https://x'')))
      \<and> (k \<noteq> 0 \<longrightarrow> prefix (ndef_uri_abbrev_table ! k) (c_str (bytes_of ''https://x''))))"
proof -
  have h: "outcomes (heap_init []) = []" by (simp add: heap_init_def)
  from ndef_record_new_uri_longest_prefix [of "heap_init []" "bytes_of ''https://x''"] h
  show ?thesis by blast
qed

lemma c_str_no_nul_in: "0 \<notin> set (c_str s)"
  unfolding c_str_def by (induction s) auto

lemma c_str_append_nul: "0 \<notin> set a \<Longrightarrow> c_str (a @ 0 # b) = a"
  unfolding c_str_def by (induction a) auto

lemma payload_bytesD:
  assumes "payload_bytes h ctx = Some pl"
  obtains a bs where "payload_p ctx = Some a" "cells h a = Some bs"
    "payload_len ctx \<le> length bs" "pl = take (payload_len ctx) bs"
  using assms
  by (auto simp: payload_bytes_def memread_def split: option.splits if_splits)

lemma is_uri_payload_len: "ndef_record_is_uri h ctx = Some True \<Longrightarrow> 2 \<le> payload_len ctx"
  by (auto simp: ndef_record_is_uri_def Option.bind_eq_Some_conv split: if_splits)

text \<open>
  C8, as the code has it. For a record classified as a URI record whose payload buffer holds
  \<open>payload_len\<close> bytes \<open>pl\<close>, and an allocation that succeeds: when byte 0 is 36 or more,
  \<open>ndef_record_get_uri\<close> returns \<open>NULL\<close>; otherwise it returns a fresh C string made of the
  table entry selected by byte 0 (the empty entry for 0) followed by the payload bytes from
  byte 1 on, up to the end of the payload or the first NUL among them, whichever comes first.
\<close>

theorem ndef_record_get_uri_c_string:
  assumes uri: "ndef_record_is_uri h ctx = Some True"
    and pl: "payload_bytes h ctx = Some pl"
    and ok: "alloc_ok h"
  shows "(NDEF_URI_ABBREVMAX \<le> unat (pl ! 0) \<longrightarrow> ndef_record_get_uri ctx h = Some (None, h)) \<and>
         (unat (pl ! 0) < NDEF_URI_ABBREVMAX \<longrightarrow>
            (\<exists>mem h'. ndef_record_get_uri ctx h = Some (Some mem, h') \<and>
               cstr_at h' (Some mem) =
                 Some (ndef_uri_abbrev_table ! unat (pl ! 0) @ c_str (tl pl))))"
proof -
  from pl obtain a bs where a: "payload_p ctx = Some a" "cells h a = Some bs"
    and len: "payload_len ctx \<le> length bs" and pl_eq: "pl = take (payload_len ctx) bs"
    by (rule payload_bytesD)
  from uri have n2: "2 \<le> payload_len ctx" by (rule is_uri_payload_len)
  have p0: "peek h (payload_p ctx) 0 = Some (pl ! 0)"
    using a len n2 by (cases bs) (auto simp: peek_def pl_eq)
  have tl_eq: "take (payload_len ctx - 1) (drop 1 bs) = tl pl"
    using n2 by (simp add: pl_eq drop_Suc tl_take)
  have tl_len: "length (tl pl) = payload_len ctx - 1"
    using len by (simp add: pl_eq)
  have s: "strn_at h (payload_p ctx) 1 (payload_len ctx - 1) = Some (c_str (tl pl))"
    using a tl_len unfolding strn_at_def tl_eq [symmetric] by (simp add: Let_def)
  show ?thesis
  proof (cases "pl ! 0 = 0")
    case True
    have "c_str (c_str (tl pl) @ [0]) = c_str (tl pl)"
      by (rule c_str_append_nul) (rule c_str_no_nul_in)
    with True uri p0 s ok show ?thesis
      by (simp add: ndef_record_get_uri_def malloc_def poke_def cstr_at_def table_0
          NDEF_URI_ABBREVMAX_def)
  next
    case False
    show ?thesis
    proof (cases "unat (pl ! 0) < NDEF_URI_ABBREVMAX")
      case big: False
      with False uri p0 show ?thesis by (simp add: ndef_record_get_uri_def)
    next
      case small: True
      let ?t = "ndef_uri_abbrev_table ! unat (pl ! 0)"
      have "0 \<notin> set (?t @ c_str (tl pl))"
        using table_nth_no_nul [OF small] c_str_no_nul_in by simp
      then have "c_str ((?t @ c_str (tl pl)) @ [0]) = ?t @ c_str (tl pl)"
        by (rule c_str_append_nul)
      moreover have "strlen ?t = length ?t"
        using table_nth_no_nul [OF small] by (simp add: strlen_def c_str_no_nul)
      ultimately show ?thesis
        using False small uri p0 s ok
        by (simp add: ndef_record_get_uri_def malloc_def poke_def cstr_at_def)
    qed
  qed
qed

theorem ndef_record_get_uri_c_string_witness:
  "ndef_record_is_uri uri_https_heap uri_https_record = Some True \<and>
   payload_bytes uri_https_heap uri_https_record = Some [0x04, 0x78] \<and>
   alloc_ok uri_https_heap \<and>
   (\<exists>mem h'. ndef_record_get_uri uri_https_record uri_https_heap = Some (Some mem, h') \<and>
      cstr_at h' (Some mem) = Some (bytes_of ''https://x''))"
proof -
  have a: "ndef_record_is_uri uri_https_heap uri_https_record = Some True"
    by (simp add: uri_https_heap_def uri_https_record_def ndef_record_is_uri_def peek_def)
  have b: "payload_bytes uri_https_heap uri_https_record = Some [0x04, 0x78]"
    by (simp add: uri_https_heap_def uri_https_record_def payload_bytes_def memread_def)
  have c: "alloc_ok uri_https_heap"
    by (simp add: uri_https_heap_def alloc_ok_def)
  have d: "ndef_uri_abbrev_table ! 4 @ c_str [0x78] = bytes_of ''https://x''"
    by (simp add: table_bytes bytes_of_def c_str_def)
  from ndef_record_get_uri_c_string [OF a b c] d a b c show ?thesis
    by (simp add: NDEF_URI_ABBREVMAX_def)
qed

text \<open>
  C8 as stated fails where the payload holds a NUL: the record is a URI record, its payload
  bytes 1 to 3 are 61 00 62, and the returned buffer is 61 00, the C string of one character.
\<close>

theorem ndef_record_get_uri_nul_counterexample:
  "ndef_record_is_uri uri_nul_heap uri_nul_record = Some True \<and>
   memread uri_nul_heap (payload_p uri_nul_record) 1 (payload_len uri_nul_record - 1)
     = Some [0x61, 0x00, 0x62] \<and>
   (\<exists>h'. ndef_record_get_uri uri_nul_record uri_nul_heap = Some (Some 2, h') \<and>
      cells h' 2 = Some [0x61, 0x00] \<and> cstr_at h' (Some 2) = Some [0x61]) \<and>
   \<not> (\<exists>mem h' rest. ndef_record_get_uri uri_nul_record uri_nul_heap = Some (Some mem, h') \<and>
      cells h' mem = Some (ndef_uri_abbrev_table ! 0 @ [0x61, 0x00, 0x62] @ rest))"
  by (simp add: uri_nul_heap_def uri_nul_record_def ndef_record_is_uri_def peek_def memread_def
      ndef_record_get_uri_def strn_at_def c_str_def malloc_def alloc_ok_def alloc_next_def
      poke_def cstr_at_def)

section \<open>Properties of the record store\<close>

lemmas insert_defs = ndef_append_def ndef_insert_def ndef_insert_n_def ndef_insert_mv_def
  ndef_insert_n_mv_def insert_n_def magic_ok_def
  abs_reserve_def shift_tail_def undo_shift_def destroy_failed_def fill_one_def clone_type_def
  clone_payload_def clone_id_def arr_get_def arr_set_def arr_grow_def alloc_ok_def alloc_next_def
  SIZE_MAX_def records_of_def ndef_record_init_def heap_init_def ndef_init_def grow_cap.simps

lemmas store_defs = store_empty_def store_a_def store_ab_def rec_a_def rec_b_def rec_x_def

text \<open>
  C2. \<open>ndef_splice_n\<close> returns the store it was given: asked to remove the record at
  index 0 of the two-record store, it leaves both records and the length 2. The claim
  asks for the length 1 and the one surviving record.
\<close>

theorem ndef_splice_n_removes_nothing:
  "ndef_splice_n store_ab 0 1 = Some store_ab \<and> ndef_splice store_ab 0 = Some store_ab \<and>
   abs_records_len store_ab = 2 \<and> records_of store_ab = [rec_a, rec_b]"
  by (simp add: ndef_splice_n_def ndef_splice_def magic_ok_def store_defs records_of_def)

text \<open>
  C3. The store holds \<open>rec_a\<close>; two records are inserted at index 0 by copy, and the copy
  of the second one fails. The call returns failure and the length is still 1, but the
  record of the store is now the half-filled slot of the second record instead of
  \<open>rec_a\<close>; the copy of the first record's type (address 3) is still allocated; and the
  payload of the caller's second record (address 2) has been freed.
\<close>

theorem ndef_insert_n_failed_copy_not_undone:
  "records_of store_a = [rec_a] \<and> cells batch_heap 2 = Some [0x63] \<and>
   (\<exists>c h'. ndef_insert_n store_a 0 [batch_r0, batch_r1] batch_heap = Some (False, c, h') \<and>
      abs_records_len c = 1 \<and>
      records_of c = [batch_r1\<lparr> type_p := None \<rparr>] \<and>
      cells h' 3 = Some [0x61] \<and> cells h' 2 = None)"
  by (simp add: insert_defs store_defs batch_heap_def batch_r0_def batch_r1_def Let_def
      upt_conv_Cons numeral_2_eq_2 malloc_def memread_def poke_def ndef_record_destroy_def
      free_ptr_def free_buf_def)

text \<open>
  C4. Two appends to the empty store give the records \<open>rec_a\<close>, \<open>rec_b\<close>. Inserting
  \<open>rec_x\<close> at index 0 succeeds with length 3, by copy and by move alike, and the records
  are then \<open>rec_x\<close>, \<open>rec_b\<close>, \<open>rec_a\<close>: the former tail is not in its original order. The
  claim asks for \<open>rec_x\<close>, \<open>rec_a\<close>, \<open>rec_b\<close>.
\<close>

theorem insert_n_front_reorders_tail:
  "ndef_init (heap_init []) = (Some store_empty, heap_init []) \<and>
   ndef_append store_empty rec_a (heap_init []) = Some (True, store_a, heap_init []) \<and>
   ndef_append store_a rec_b (heap_init []) = Some (True, store_ab, heap_init []) \<and>
   records_of store_ab = [rec_a, rec_b] \<and>
   (\<exists>c. ndef_insert store_ab 0 rec_x (heap_init []) = Some (True, c, heap_init []) \<and>
      abs_records_len c = 3 \<and> records_of c = [rec_x, rec_b, rec_a]) \<and>
   (\<exists>c. ndef_insert_mv store_ab 0 rec_x (heap_init []) = Some (True, c, heap_init []) \<and>
      abs_records_len c = 3 \<and> records_of c = [rec_x, rec_b, rec_a])"
proof (intro conjI)
  show "ndef_init (heap_init []) = (Some store_empty, heap_init [])"
    by (simp add: insert_defs store_defs)
  show "ndef_append store_empty rec_a (heap_init []) = Some (True, store_a, heap_init [])"
    by (simp add: insert_defs store_defs Let_def)
  show "ndef_append store_a rec_b (heap_init []) = Some (True, store_ab, heap_init [])"
    by (simp add: insert_defs store_defs Let_def)
  show "records_of store_ab = [rec_a, rec_b]"
    by (simp add: store_defs records_of_def)
  show "\<exists>c. ndef_insert store_ab 0 rec_x (heap_init []) = Some (True, c, heap_init []) \<and>
      abs_records_len c = 3 \<and> records_of c = [rec_x, rec_b, rec_a]"
    by (simp add: insert_defs store_defs Let_def upt_conv_Cons numeral_2_eq_2)
  show "\<exists>c. ndef_insert_mv store_ab 0 rec_x (heap_init []) = Some (True, c, heap_init []) \<and>
      abs_records_len c = 3 \<and> records_of c = [rec_x, rec_b, rec_a]"
    by (simp add: insert_defs store_defs Let_def upt_conv_Cons numeral_2_eq_2)
qed

section \<open>Properties of the text codec\<close>

text \<open>
  C6. For the language \<open>en\<close> and the text \<open>hi\<close>, \<open>ndef_record_new_text\<close> returns the
  all-zero record of \<open>ndef_record_init\<close> and allocates nothing: the record has TNF 0, no
  type and no payload, where the claim asks for a well-known text record with the payload
  02 65 6E 68 69. \<open>ndef_record_get_text\<close> of that record returns two null pointers.
\<close>

theorem ndef_record_new_text_en_hi_is_empty:
  "cstr_at text_en_hi_heap (lang_p text_en_hi) = Some (bytes_of ''en'') \<and>
   cstr_at text_en_hi_heap (text_p text_en_hi) = Some (bytes_of ''hi'') \<and>
   ndef_record_new_text text_en_hi text_en_hi_heap = Some (ndef_record_init, text_en_hi_heap) \<and>
   tnf ndef_record_init = NDEF_TNF_EMPTY \<and> payload_len ndef_record_init = 0 \<and>
   payload_p ndef_record_init = None \<and>
   ndef_record_get_text ndef_record_init text_en_hi_heap
     = Some (\<lparr> lang_p = None, text_p = None \<rparr>, text_en_hi_heap)"
  by (simp add: text_en_hi_heap_def text_en_hi_def cstr_at_def bytes_of_def c_str_def
      ndef_record_new_text_def ndef_record_init_def ndef_record_get_text_def
      ndef_record_is_text_def)

section \<open>Properties of the codec\<close>

lemma ndef_raw_append_len:
  assumes "ndef_raw_append ctx r h = Some (res, ctx', h')"
  shows "raw_records_len ctx' = raw_records_len ctx + (if res then 1 else 0) \<and>
         abs_records_len ctx' = abs_records_len ctx"
  using assms unfolding ndef_raw_append_def arr_set_def
  by (auto simp: Option.bind_eq_Some_conv Let_def split: if_splits option.splits prod.splits)

lemma decode_loop_count:
  "decode_loop data pos ctx h = Some (p, ctx', h') \<Longrightarrow>
   raw_records_len ctx' \<le> raw_records_len ctx + (length data - pos) div 3 \<and>
   abs_records_len ctx' = abs_records_len ctx"
proof (induction data pos ctx h rule: decode_loop.induct)
  case (1 data pos ctx h)
  note unfold = decode_loop.simps [of data pos ctx h]
  show ?case
  proof (cases "pos < length data")
    case False
    with "1.prems" show ?thesis by (simp add: unfold)
  next
    case True
    show ?thesis
    proof (cases "ndef_raw_record_decode (drop pos data) h")
      case None
      with True "1.prems" show ?thesis by (simp add: unfold)
    next
      case (Some res)
      obtain d h1 where res: "res = (d, h1)" by (cases res)
      show ?thesis
      proof (cases d)
        case (Decoded r n)
        from Some res Decoded
        have dec: "ndef_raw_record_decode (drop pos data) h = Some (Decoded r n, h1)" by simp
        from ndef_raw_record_decode_consumed [OF dec] True
        have n: "3 \<le> n" "pos + n \<le> length data" by auto
        show ?thesis
        proof (cases "ndef_raw_append ctx r h1")
          case None
          with True dec "1.prems" show ?thesis by (simp add: unfold)
        next
          case app: (Some a)
          obtain ok ctx1 h2 where a: "a = (ok, ctx1, h2)" by (cases a)
          from ndef_raw_append_len [OF app [unfolded a]]
          have len1: "raw_records_len ctx1 = raw_records_len ctx + (if ok then 1 else 0)"
            and abs1: "abs_records_len ctx1 = abs_records_len ctx" by simp_all
          show ?thesis
          proof (cases ok)
            case False
            with True dec app a "1.prems" len1 abs1 show ?thesis by (auto simp: unfold)
          next
            case ok: True
            with True dec app a "1.prems"
            have rec: "decode_loop data (pos + n) ctx1 h2 = Some (p, ctx', h')"
              by (simp add: unfold)
            have "raw_records_len ctx' \<le> raw_records_len ctx1 + (length data - (pos + n)) div 3 \<and>
                abs_records_len ctx' = abs_records_len ctx1"
              using True dec app a ok rec by (intro "1.IH") auto
            moreover have "(length data - (pos + n)) div 3 + 1 \<le> (length data - pos) div 3"
            proof -
              have "(length data - (pos + n)) + 3 \<le> length data - pos" using n by simp
              then have "((length data - (pos + n)) + 3) div 3 \<le> (length data - pos) div 3"
                by (rule div_le_mono)
              then show ?thesis by simp
            qed
            ultimately show ?thesis using len1 abs1 ok by simp
          qed
        qed
      next
        case Truncated
        with True Some res "1.prems" show ?thesis by (simp add: unfold)
      next
        case OutOfMemory
        with True Some res "1.prems" show ?thesis by (simp add: unfold)
      qed
    qed
  qed
qed


lemma abs_reserve_len:
  assumes "abs_reserve ctx n h = Some (Some ctx1, h1)"
  shows "abs_records_len ctx1 = abs_records_len ctx \<and> raw_records_len ctx1 = raw_records_len ctx"
  using assms unfolding abs_reserve_def
  by (auto simp: Let_def split: if_splits)

lemma insert_n_len:
  assumes "insert_n ctx i rs m h = Some (res, ctx', h')"
  shows "abs_records_len ctx' \<le> abs_records_len ctx + length rs \<and>
         raw_records_len ctx' = raw_records_len ctx"
proof (cases "abs_reserve ctx (abs_records_len ctx + length rs) h")
  case None
  with assms show ?thesis by (simp add: insert_n_def Let_def split: if_splits)
next
  case (Some a)
  obtain c h1 where a: "a = (c, h1)" by (cases a)
  show ?thesis
  proof (cases c)
    case None
    with assms Some a show ?thesis by (auto simp: insert_n_def Let_def split: if_splits)
  next
    case c: (Some ctx1)
    from abs_reserve_len [OF Some [unfolded a c]]
    have "abs_records_len ctx1 = abs_records_len ctx" "raw_records_len ctx1 = raw_records_len ctx"
      by simp_all
    with assms Some a c show ?thesis
      by (auto simp: insert_n_def Let_def Option.bind_eq_Some_conv split: if_splits)
  qed
qed

lemma promote_step_len:
  assumes "promote_step i (Some (ctx, h)) = Some (ctx', h')"
  shows "abs_records_len ctx' \<le> abs_records_len ctx + 1 \<and>
         raw_records_len ctx' = raw_records_len ctx"
proof -
  from assms obtain arr r res where
    "ndef_append (ctx\<lparr> raw_records := arr \<rparr>) r h = Some (res, ctx', h')"
    unfolding promote_step_def
    by (auto simp: Option.bind_eq_Some_conv Let_def)
  then have "insert_n (ctx\<lparr> raw_records := arr \<rparr>) SIZE_MAX [r] False h = Some (res, ctx', h')"
    by (simp add: ndef_append_def ndef_insert_n_def)
  from insert_n_len [OF this] show ?thesis by simp
qed

lemma promote_fold_len:
  "fold promote_step js (Some (ctx, h)) = Some (ctx', h') \<Longrightarrow>
   abs_records_len ctx' \<le> abs_records_len ctx + length js \<and>
   raw_records_len ctx' = raw_records_len ctx"
proof (induction js arbitrary: ctx h)
  case Nil
  then show ?case by simp
next
  case (Cons j js)
  show ?case
  proof (cases "promote_step j (Some (ctx, h))")
    case None
    have "fold promote_step js None = None"
      by (induction js) (simp_all add: promote_step_def)
    with Cons.prems None show ?thesis by simp
  next
    case (Some a)
    obtain c1 h1 where a: "a = (c1, h1)" by (cases a)
    from promote_step_len [OF Some [unfolded a]]
    have 1: "abs_records_len c1 \<le> abs_records_len ctx + 1" "raw_records_len c1 = raw_records_len ctx"
      by simp_all
    from Cons.prems Some a have "fold promote_step js (Some (c1, h1)) = Some (ctx', h')" by simp
    from Cons.IH [OF this] 1 show ?thesis by simp
  qed
qed

lemma ndef_decode_count:
  assumes "ndef_decode data h = Some (Some ctx, h')"
  shows "raw_records_len ctx \<le> length data div 3 \<and> abs_records_len ctx \<le> raw_records_len ctx"
proof -
  from assms obtain c0 h1 p c1 h2 where
    init: "ndef_init h = (Some c0, h1)" and
    loop: "decode_loop data 0 c0 h1 = Some (p, c1, h2)" and
    prom: "promote_loop c1 h2 = Some (ctx, h')"
    unfolding ndef_decode_def
    by (auto simp: Option.bind_eq_Some_conv split: if_splits prod.splits option.splits)
  from init have c0: "raw_records_len c0 = 0" "abs_records_len c0 = 0"
    by (auto simp: ndef_init_def split: if_splits)
  from decode_loop_count [OF loop] c0
  have 1: "raw_records_len c1 \<le> length data div 3" and abs1: "abs_records_len c1 = abs_records_len c0"
    by simp_all
  from promote_fold_len [OF prom [unfolded promote_loop_def]] abs1 c0 1
  show ?thesis by simp
qed

lemma uri_match_https_x: "uri_match (bytes_of ''https://x'') = (4, 8)"
  by (simp add: uri_match_def NDEF_URI_ABBREVMAX_def upt_conv_Cons uri_match_step_prefix
      bytes_of_def c_str_def table_bytes)

lemma replicate_numeral: "replicate (numeral k) x = x # replicate (pred_numeral k) x"
  by (simp add: numeral_eq_Suc)

lemmas heap_defs = replicate_numeral grow_cap.simps malloc_def realloc_def alloc_ok_def alloc_next_def poke_def peek_def
  memread_def free_ptr_def free_buf_def cstr_at_def strn_at_def c_str_def strlen_def

lemmas codec_defs = ndef_encode_def ndef_raw_clear_def arr_free_def ndef_ostream_init_def
  ndef_raw_record_encode_def checked_def encode_payload_len_def ndef_ostream_append_def
  ndef_ostream_append_n_def ndef_ostream_destroy_def
  NDEF_FLAG_MB_def NDEF_FLAG_ME_def NDEF_FLAG_CF_def NDEF_FLAG_SR_def NDEF_FLAG_IL_def
  NDEF_FLAG_TNF_def ndef_record.defs ndef_raw_record.defs


lemmas decode_defs = ndef_raw_record_decode_def arr_get_def NDEF_FLAG_SR_def NDEF_FLAG_IL_def
  NDEF_FLAG_MB_def NDEF_FLAG_ME_def NDEF_FLAG_CF_def NDEF_FLAG_TNF_def tnf_of_def
  decode_fields_def decode_type_def decode_payload_def decode_id_def memcpy_in_def int_shl_def

text \<open>
  Where the length checks of \<open>ndef_raw_record_decode\<close> work: an input of fewer than 3
  bytes, and a short record cut inside its payload, are turned down as truncated and the
  heap is untouched.
\<close>

lemma ndef_raw_record_decode_short:
  "length data < 3 \<Longrightarrow> ndef_raw_record_decode data h = Some (Truncated, h)"
  by (simp add: ndef_raw_record_decode_def)

lemma ndef_raw_record_decode_cut_payload:
  "ndef_raw_record_decode [0xD1, 0x01, 0x02, 0x55, 0x04] h = Some (Truncated, h)"
  by (simp add: decode_defs)

text \<open>
  The second length check asks for \<open>5 + IL\<close> bytes where the header of a record that is
  not short has \<open>6 + IL\<close>: on five bytes the fourth byte of the payload length is read at
  offset 5, outside the input.
\<close>

lemma ndef_raw_record_decode_header_cut:
  "ndef_raw_record_decode [0x00, 0x00, 0x00, 0x00, 0x00] h = None"
  by (simp add: decode_defs)

text \<open>
  C5. The type that \<open>cut_input\<close> declares lies past its six bytes, and so does the byte
  of the ID length. The second length check asks for \<open>5 + 1\<close> bytes where this header has
  7, so the check passes and the ID length is read at offset 6, outside the input. The
  declared type and payload of \<open>wrap_input\<close> reach far past its six bytes too: its payload
  length is decoded as \<open>2 ^ 64 - 1\<close>, the sum of the third length check wraps to 6, and
  that check passes; with an allocator that does not fail the copy of the type then reads
  the byte at offset 6, and when the allocation of the type fails the function fails for
  lack of memory. In none of these cases is the result \<open>Truncated\<close> after reads inside
  the input only.
\<close>

theorem ndef_raw_record_decode_reads_past_input:
  "length cut_input = 6 \<and> arr_get cut_input 1 = Some 1 \<and> arr_get cut_input 6 = None \<and>
   ndef_raw_record_decode cut_input (heap_init []) = None \<and>
   length wrap_input = 6 \<and>
   (0 OR int_shl 0xFF 24 OR int_shl 0xFF 16 OR int_shl 0xFF 8 OR int_shl 0xFF 0) = (2 ^ 64 - 1 :: 64 word) \<and>
   unat (of_nat 6 + ucast (1 :: byte) + (2 ^ 64 - 1) + ucast (0 :: byte) :: 64 word) = 6 \<and>
   memcpy_in wrap_input 6 1 = None \<and>
   ndef_raw_record_decode wrap_input (heap_init []) = None \<and>
   (\<exists>h. ndef_raw_record_decode wrap_input (heap_init [False]) = Some (OutOfMemory, h))"
  by (simp add: cut_input_def wrap_input_def decode_defs heap_init_def malloc_def alloc_ok_def
      alloc_next_def poke_def free_ptr_def ndef_record.defs ndef_raw_record.defs)

text \<open>
  C10. A record that decodes takes at least 3 bytes and at most the bytes it was given;
  so a pass of the loop of \<open>ndef_decode\<close> that decodes a record leaves strictly less
  input; and a message decoded from \<open>len\<close> bytes has at most \<open>len div 3\<close> raw records and
  as many abstract records at most. That the loop ends is the termination proof of
  \<open>decode_loop\<close>, by the measure \<open>*len - pos\<close>.
\<close>

theorem ndef_decode_progress_and_bound:
  "(ndef_raw_record_decode d h = Some (Decoded r n, h1) \<longrightarrow> 3 \<le> n \<and> n \<le> length d) \<and>
   (pos < length data \<and> ndef_raw_record_decode (drop pos data) h = Some (Decoded r n, h1) \<longrightarrow>
      length data - (pos + n) < length data - pos) \<and>
   (ndef_decode data h = Some (Some ctx, h') \<longrightarrow>
      raw_records_len ctx \<le> length data div 3 \<and> abs_records_len ctx \<le> length data div 3)"
proof (intro conjI impI)
  assume "ndef_raw_record_decode d h = Some (Decoded r n, h1)"
  from ndef_raw_record_decode_consumed [OF this] show "3 \<le> n" and "n \<le> length d" by simp_all
next
  assume "pos < length data \<and> ndef_raw_record_decode (drop pos data) h = Some (Decoded r n, h1)"
  then have "pos < length data"
    and "ndef_raw_record_decode (drop pos data) h = Some (Decoded r n, h1)" by simp_all
  from ndef_raw_record_decode_consumed [OF this(2)] this(1)
  show "length data - (pos + n) < length data - pos" by auto
next
  assume "ndef_decode data h = Some (Some ctx, h')"
  from ndef_decode_count [OF this]
  show "raw_records_len ctx \<le> length data div 3" and "abs_records_len ctx \<le> length data div 3"
    by simp_all
qed

lemma uri_record_bytes_decode:
  "\<exists>r h1. ndef_raw_record_decode uri_record_bytes (heap_init []) = Some (Decoded r 6, h1)"
  by (simp add: uri_record_bytes_def decode_defs heap_init_def heap_defs ndef_record.defs
      ndef_raw_record.defs)

lemma uri_record_bytes_message:
  "\<exists>ctx h'. ndef_decode uri_record_bytes (heap_init []) = Some (Some ctx, h') \<and>
     abs_records_len ctx = 1"
  apply (simp add: ndef_decode_def uri_record_bytes_def ndef_init_def heap_init_def alloc_ok_def
      alloc_next_def)
  apply (subst decode_loop.simps)
  apply (simp add: decode_defs heap_defs ndef_record.defs ndef_raw_record.defs)
  apply (simp add: ndef_raw_append_def magic_ok_def arr_grow_def arr_set_def heap_defs
      ndef_raw_record_init_def ndef_record.defs ndef_raw_record.defs ndef_record_init_def)
  apply (subst decode_loop.simps)
  apply (simp add: promote_loop_def promote_step_def arr_get_def arr_set_def
      ndef_record.defs ndef_raw_record.defs insert_defs heap_defs Let_def)
  done

theorem ndef_decode_progress_and_bound_witness:
  "\<exists>r n h1 ctx h'.
     ndef_raw_record_decode uri_record_bytes (heap_init []) = Some (Decoded r n, h1) \<and>
     3 \<le> n \<and> n \<le> length uri_record_bytes \<and>
     0 < length uri_record_bytes \<and>
     length uri_record_bytes - (0 + n) < length uri_record_bytes - 0 \<and>
     ndef_decode uri_record_bytes (heap_init []) = Some (Some ctx, h') \<and>
     abs_records_len ctx = 1 \<and>
     raw_records_len ctx \<le> length uri_record_bytes div 3 \<and>
     abs_records_len ctx \<le> length uri_record_bytes div 3"
proof -
  from uri_record_bytes_decode obtain r h1 where
    d: "ndef_raw_record_decode uri_record_bytes (heap_init []) = Some (Decoded r 6, h1)" by blast
  from uri_record_bytes_message obtain ctx h' where
    m: "ndef_decode uri_record_bytes (heap_init []) = Some (Some ctx, h')"
      "abs_records_len ctx = 1" by blast
  have l: "0 < length uri_record_bytes" by (simp add: uri_record_bytes_def)
  from ndef_decode_progress_and_bound
    [of uri_record_bytes "heap_init []" r 6 h1 0 uri_record_bytes ctx h'] d m l
  show ?thesis by auto
qed

section \<open>Properties of the smart poster codec\<close>

lemma new_sp:
  "\<exists>h. ndef_record_new_smartposter sp_in sp_heap = Some (sp_out, h) \<and>
     cells h 8 = Some [0x53, 0x70] \<and> cells h 7 = Some [0xD1, 0x01, 0x02, 0x55, 0x04, 0x78, 0, 0]
     \<and> outcomes h = [] \<and> brk h = 9"
  apply (simp add: ndef_record_new_smartposter_def sp_in_def ndef_init_def ndef_records_len_def
      ndef_records_def magic_ok_def alloc_ok_def alloc_next_def sp_heap_def cstr_at_def)
  apply (simp add: bytes_of_def c_str_def)
  apply (simp add: ndef_record_new_uri_def uri_match_https_x [unfolded bytes_of_def, simplified] new_uri_def)
  apply (simp add: heap_defs ndef_append_mv_def ndef_insert_n_mv_def insert_n_def magic_ok_def
      abs_reserve_def shift_tail_def fill_one_def arr_get_def arr_set_def arr_grow_def Let_def
      SIZE_MAX_def numeral_2_eq_2 [symmetric])
  apply (simp add: codec_defs magic_ok_def arr_get_def heap_defs ndef_destroy_def ndef_clear_def sp_out_def
      numeral_2_eq_2 [symmetric])
  done


lemma is_sp: "\<And>h. cells h 8 = Some [0x53, 0x70] \<Longrightarrow> ndef_record_is_smartposter h sp_out = Some False"
  by (simp add: ndef_record_is_smartposter_def sp_out_def)

lemma get_sp:
  assumes "cells h 7 = Some [0xD1, 0x01, 0x02, 0x55, 0x04, 0x78, 0, 0]" "outcomes h = []" "brk h = 9"
  shows "\<exists>c h'. ndef_record_get_smartposter sp_out h =
      Some (\<lparr> sp_ndef = Some c, sp_uri = Some 13, sp_text = \<lparr> lang_p = None, text_p = None \<rparr> \<rparr>, h') \<and>
      cstr_at h' (Some 13) = Some (bytes_of ''https://x'')"
  using assms
  apply (simp add: ndef_record_get_smartposter_def ndef_decode_at_def sp_out_def memread_def
      ndef_decode_def ndef_init_def alloc_ok_def alloc_next_def)
  apply (subst decode_loop.simps)
  apply (simp add: ndef_raw_record_decode_def arr_get_def NDEF_FLAG_SR_def NDEF_FLAG_IL_def
      NDEF_FLAG_MB_def NDEF_FLAG_ME_def NDEF_FLAG_CF_def NDEF_FLAG_TNF_def tnf_of_def
      decode_fields_def decode_type_def decode_payload_def decode_id_def memcpy_in_def
      heap_defs ndef_record.defs ndef_raw_record.defs Let_def)
  apply (simp add: ndef_raw_append_def magic_ok_def arr_grow_def arr_set_def heap_defs
      ndef_raw_record_init_def ndef_record.defs ndef_raw_record.defs ndef_record_init_def)
  apply (subst decode_loop.simps)
  apply (simp add: promote_loop_def promote_step_def arr_get_def arr_set_def
      ndef_record.defs ndef_raw_record.defs insert_defs heap_defs Let_def
      ndef_records_len_def ndef_records_def)
  apply (simp add: ndef_record_get_uri_def ndef_record_is_uri_def heap_defs
      ndef_record_get_text_def ndef_record_is_text_def NDEF_URI_ABBREVMAX_def table_bytes
      bytes_of_def)
  done

text \<open>
  C7. The record made from the smart poster with the URI \<open>https://x\<close> has the two type
  bytes \<open>Sp\<close> in its type buffer but \<open>type_len = 1\<close>, and \<open>ndef_record_is_smartposter\<close>,
  which asks for \<open>type_len = 2\<close>, is false of it. \<open>ndef_record_get_smartposter\<close>, which
  does not ask, recovers the URI \<open>https://x\<close> and no text.
\<close>

theorem ndef_record_new_smartposter_not_classified:
  "\<exists>r h sp h'.
     ndef_record_new_smartposter sp_in sp_heap = Some (r, h) \<and>
     tnf r = NDEF_TNF_WELL_KNOWN \<and> type_len r = 1 \<and> payload_len r = 6 \<and>
     memread h (type_p r) 0 2 = Some [0x53, 0x70] \<and>
     ndef_record_is_smartposter h r = Some False \<and>
     ndef_record_get_smartposter r h = Some (sp, h') \<and>
     cstr_at h' (sp_uri sp) = Some (bytes_of ''https://x'') \<and>
     sp_text sp = \<lparr> lang_p = None, text_p = None \<rparr>"
proof -
  from new_sp obtain h where
    r: "ndef_record_new_smartposter sp_in sp_heap = Some (sp_out, h)" and
    t: "cells h 8 = Some [0x53, 0x70]" and
    p: "cells h 7 = Some [0xD1, 0x01, 0x02, 0x55, 0x04, 0x78, 0, 0]" and
    o: "outcomes h = []" "brk h = 9" by blast
  from get_sp [OF p o] obtain c h' where
    g: "ndef_record_get_smartposter sp_out h =
        Some (\<lparr> sp_ndef = Some c, sp_uri = Some 13,
                sp_text = \<lparr> lang_p = None, text_p = None \<rparr> \<rparr>, h')"
      "cstr_at h' (Some 13) = Some (bytes_of ''https://x'')" by blast
  have m: "memread h (type_p sp_out) 0 2 = Some [0x53, 0x70]"
    using t by (simp add: memread_def sp_out_def)
  have f: "tnf sp_out = NDEF_TNF_WELL_KNOWN" "type_len sp_out = 1" "payload_len sp_out = 6"
    by (simp_all add: sp_out_def)
  from r f m is_sp [OF t] g show ?thesis by auto
qed

section \<open>Encoding and decoding one record\<close>

lemma replicate_2: "replicate 2 x = [x, x]" by (simp add: numeral_2_eq_2)
lemma replicate_4: "replicate 4 x = [x, x, x, x]" by (simp add: eval_nat_numeral)

lemmas heap_defs0 = replicate_2 replicate_4 grow_cap.simps malloc_def realloc_def alloc_ok_def
  alloc_next_def poke_def peek_def memread_def free_ptr_def free_buf_def

lemma big_append: "ndef_append_mv store_empty big_record big_heap = Some (True, big_store, big_heap)"
  by (simp add: ndef_append_mv_def insert_defs store_defs big_store_def big_record_def
      big_heap_def Let_def)

lemma big_encode:
  "\<exists>c1 h1. ndef_encode big_store big_heap = Some (Some (Some 6, 2147483654), c1, h1) \<and>
     memread h1 (Some 6) 0 2147483654 = Some ([0xC5, 0, 0x80, 0, 0, 0] @ replicate 2147483648 0) \<and>
     memread h1 (Some 6) 0 6 = Some [0xC5, 0, 0x80, 0, 0, 0] \<and>
     outcomes h1 = []"
  apply (simp add: ndef_encode_def magic_ok_def big_store_def store_empty_def ndef_raw_clear_def
      arr_free_def big_record_def ndef_record_init_def)
  apply (simp add: numeral_eq_Suc [of "Num.One"] arr_get_def ndef_ostream_init_def)
  apply (simp add: ndef_raw_record_encode_def checked_def encode_payload_len_def
      ndef_ostream_append_def ndef_ostream_append_n_def
      NDEF_FLAG_MB_def NDEF_FLAG_ME_def NDEF_FLAG_CF_def NDEF_FLAG_SR_def NDEF_FLAG_IL_def
      NDEF_FLAG_TNF_def ndef_record.defs ndef_raw_record.defs big_heap_def heap_defs0 Let_def)
  done

lemma big_decode:
  assumes "memread h (Some 6) 0 2147483654 = Some ([0xC5, 0, 0x80, 0, 0, 0] @ replicate 2147483648 0)"
    and "outcomes h = []"
  shows "\<exists>c h'. ndef_decode_at (Some 6) 2147483654 h = Some (Some c, h') \<and> abs_records_len c = 0"
  using assms
  apply (simp add: ndef_decode_at_def ndef_decode_def ndef_init_def alloc_ok_def alloc_next_def)
  apply (subst decode_loop.simps)
  apply (simp add: decode_defs nth_append)
  apply (simp add: promote_loop_def)
  done

text \<open>
  An ordinary record survives: the message of \<open>rt_record\<close> is encoded into 15 bytes, and
  decoding them gives one record with the same TNF, type, payload and ID.
\<close>

lemma rt_append: "ndef_append_mv store_empty rt_record rt_heap = Some (True, rt_store, rt_heap)"
  by (simp add: ndef_append_mv_def insert_defs store_defs rt_store_def rt_record_def
      rt_heap_def Let_def)

lemma rt_encode:
  "\<exists>c1 h1. ndef_encode rt_store rt_heap = Some (Some (Some 7, 15), c1, h1) \<and>
     memread h1 (Some 7) 0 15 = Some ([0xDC, 2, 7, 2] @ bytes_of ''ty'' @ bytes_of ''payload'' @ bytes_of ''id'') \<and>
     outcomes h1 = [] \<and> brk h1 = 8"
  apply (simp add: ndef_encode_def magic_ok_def rt_store_def store_empty_def ndef_raw_clear_def
      arr_free_def rt_record_def ndef_record_init_def)
  apply (simp add: numeral_eq_Suc [of "Num.One"] arr_get_def ndef_ostream_init_def)
  apply (simp add: ndef_raw_record_encode_def checked_def encode_payload_len_def
      ndef_ostream_append_def ndef_ostream_append_n_def
      NDEF_FLAG_MB_def NDEF_FLAG_ME_def NDEF_FLAG_CF_def NDEF_FLAG_SR_def NDEF_FLAG_IL_def
      NDEF_FLAG_TNF_def ndef_record.defs ndef_raw_record.defs rt_heap_def heap_defs Let_def
      bytes_of_def)
  done

lemma rt_decode:
  assumes "memread h (Some 7) 0 15 = Some ([0xDC, 2, 7, 2] @ bytes_of ''ty'' @ bytes_of ''payload'' @ bytes_of ''id'')"
    and "outcomes h = []" "brk h = 8"
  shows "\<exists>c h' r. ndef_decode_at (Some 7) 15 h = Some (Some c, h') \<and> records_of c = [r] \<and>
     tnf r = NDEF_TNF_EXTERNAL \<and> type_bytes h' r = Some (bytes_of ''ty'') \<and>
     payload_bytes h' r = Some (bytes_of ''payload'') \<and> id_bytes h' r = Some (bytes_of ''id'')"
  using assms
  apply (simp add: ndef_decode_at_def ndef_decode_def ndef_init_def alloc_ok_def alloc_next_def
      bytes_of_def)
  apply (subst decode_loop.simps)
  apply (simp add: decode_defs heap_defs ndef_record.defs ndef_raw_record.defs)
  apply (simp add: ndef_raw_append_def magic_ok_def arr_grow_def arr_set_def heap_defs
      ndef_raw_record_init_def ndef_record.defs ndef_raw_record.defs ndef_record_init_def)
  apply (subst decode_loop.simps)
  apply (simp add: promote_loop_def promote_step_def arr_get_def arr_set_def
      ndef_record.defs ndef_raw_record.defs insert_defs heap_defs Let_def)
  apply (simp add: records_of_def type_bytes_def payload_bytes_def id_bytes_def memread_def)
  done

lemma ndef_decode_encode_small_record:
  "\<exists>c1 h1 c h2 r.
     ndef_encode rt_store rt_heap = Some (Some (Some 7, 15), c1, h1) \<and>
     ndef_decode_at (Some 7) 15 h1 = Some (Some c, h2) \<and> records_of c = [r] \<and>
     tnf r = tnf rt_record \<and> type_bytes h2 r = type_bytes rt_heap rt_record \<and>
     payload_bytes h2 r = payload_bytes rt_heap rt_record \<and>
     id_bytes h2 r = id_bytes rt_heap rt_record"
proof -
  from rt_encode obtain c1 h1 where
    e: "ndef_encode rt_store rt_heap = Some (Some (Some 7, 15), c1, h1)" and
    m: "memread h1 (Some 7) 0 15
        = Some ([0xDC, 2, 7, 2] @ bytes_of ''ty'' @ bytes_of ''payload'' @ bytes_of ''id'')" and
    o: "outcomes h1 = []" "brk h1 = 8" by blast
  from rt_decode [OF m o] obtain c h2 r where
    d: "ndef_decode_at (Some 7) 15 h1 = Some (Some c, h2)" "records_of c = [r]"
      "tnf r = NDEF_TNF_EXTERNAL" "type_bytes h2 r = Some (bytes_of ''ty'')"
      "payload_bytes h2 r = Some (bytes_of ''payload'')" "id_bytes h2 r = Some (bytes_of ''id'')"
    by blast
  have r: "tnf rt_record = NDEF_TNF_EXTERNAL" "type_bytes rt_heap rt_record = Some (bytes_of ''ty'')"
    "payload_bytes rt_heap rt_record = Some (bytes_of ''payload'')"
    "id_bytes rt_heap rt_record = Some (bytes_of ''id'')"
    by (simp_all add: rt_record_def rt_heap_def ndef_record_init_def type_bytes_def
        payload_bytes_def id_bytes_def memread_def bytes_of_def)
  from e d r show ?thesis by force
qed

text \<open>
  C1. The one-record message of \<open>big_record\<close> (no type, no ID, a payload of \<open>2 ^ 31\<close>
  bytes, within the \<open>2 ^ 32 - 1\<close> of the claim) is encoded into \<open>6 + 2 ^ 31\<close> bytes with
  the header C5 00 80 00 00 00. Decoding these bytes gives a message with no record: the
  length byte 80 shifted by 24 is a negative \<open>int\<close>, the payload length read back is
  \<open>2 ^ 64 - 2 ^ 31\<close>, and the record is turned down as truncated. The claim asks for one
  record equal to \<open>big_record\<close>.
\<close>

theorem ndef_decode_encode_large_payload_lost:
  "payload_len big_record = 2 ^ 31 \<and> type_len big_record = 0 \<and> id_len big_record = 0 \<and>
   payload_bytes big_heap big_record = Some (replicate (2 ^ 31) 0) \<and>
   ndef_append_mv store_empty big_record big_heap = Some (True, big_store, big_heap) \<and>
   records_of big_store = [big_record] \<and>
   (\<exists>a n c1 h1 c h2.
      ndef_encode big_store big_heap = Some (Some (Some a, n), c1, h1) \<and>
      n = 6 + 2 ^ 31 \<and>
      memread h1 (Some a) 0 6 = Some [0xC5, 0x00, 0x80, 0x00, 0x00, 0x00] \<and>
      (0 OR int_shl 0x80 24 OR int_shl 0 16 OR int_shl 0 8 OR int_shl 0 0) = (2 ^ 64 - 2 ^ 31 :: 64 word) \<and>
      ndef_decode_at (Some a) n h1 = Some (Some c, h2) \<and>
      abs_records_len c = 0 \<and> records_of c = [])"
proof -
  from big_encode obtain c1 h1 where
    e: "ndef_encode big_store big_heap = Some (Some (Some 6, 2147483654), c1, h1)" and
    m: "memread h1 (Some 6) 0 2147483654 = Some ([0xC5, 0, 0x80, 0, 0, 0] @ replicate 2147483648 0)" and
    m6: "memread h1 (Some 6) 0 6 = Some [0xC5, 0, 0x80, 0, 0, 0]" and
    o: "outcomes h1 = []" by blast
  from big_decode [OF m o] obtain c h2 where
    d: "ndef_decode_at (Some 6) 2147483654 h1 = Some (Some c, h2)" "abs_records_len c = 0" by blast
  have w: "(0 OR int_shl 0x80 24 OR int_shl 0 16 OR int_shl 0 8 OR int_shl 0 0)
      = (2 ^ 64 - 2 ^ 31 :: 64 word)"
    by (simp add: int_shl_def)
  have r: "payload_len big_record = 2 ^ 31" "type_len big_record = 0" "id_len big_record = 0"
    "records_of big_store = [big_record]"
    by (simp_all add: big_record_def big_heap_def big_store_def store_empty_def
        ndef_record_init_def records_of_def)
  have r2: "payload_bytes big_heap big_record = Some (replicate (2 ^ 31) 0)"
    by (simp add: big_record_def big_heap_def ndef_record_init_def payload_bytes_def memread_def)
  have n: "(2147483654 :: nat) = 6 + 2 ^ 31" by simp
  have z: "records_of c = []" using d(2) by (simp add: records_of_def)
  have "\<exists>a n c1 h1 c h2.
      ndef_encode big_store big_heap = Some (Some (Some a, n), c1, h1) \<and>
      n = 6 + 2 ^ 31 \<and>
      memread h1 (Some a) 0 6 = Some [0xC5, 0x00, 0x80, 0x00, 0x00, 0x00] \<and>
      (0 OR int_shl 0x80 24 OR int_shl 0 16 OR int_shl 0 8 OR int_shl 0 0) = (2 ^ 64 - 2 ^ 31 :: 64 word) \<and>
      ndef_decode_at (Some a) n h1 = Some (Some c, h2) \<and>
      abs_records_len c = 0 \<and> records_of c = []"
    using e n m6 w d z by blast
  with r r2 big_append show ?thesis by blast
qed

end
